theory Spec2Isabelle
  imports Complex_Main
begin

section \<open>Values and errors\<close>

text \<open>
  The embedding of \<^verbatim>\<open>train_encoder.py\<close>. Python floats are idealised as real numbers;
  the one non-number the program tests for, NaN, is a separate constructor of the loss value.
  Every exception the source can raise on its own is a value of \<open>error\<close>.
\<close>

datatype error =
    AssertionError string
  | AttributeError string
  | KeyError string
  | ZeroDivisionError
  | RuntimeError string
  | ExternalError string

datatype lossval = Num real | NaN

fun isnan :: "lossval \<Rightarrow> bool" where
  "isnan NaN = True"
| "isnan (Num v) = False"

fun item_of :: "lossval \<Rightarrow> real" where
  "item_of (Num v) = v"
| "item_of NaN = 0"

section \<open>Parameter sets and the EMA update\<close>

text \<open>
  A tensor is the list of its elements. \<open>named_parameters()\<close> yields (name, tensor) pairs;
  \<open>OrderedDict(pairs)\<close> inserts them one by one, a repeated key overwriting the value at
  the key's first position.
\<close>

type_synonym tensor = "real list"
type_synonym params = "(string \<times> tensor) list"

fun od_set :: "params \<Rightarrow> string \<Rightarrow> tensor \<Rightarrow> params" where
  "od_set [] k v = [(k, v)]"
| "od_set ((k', v') # d) k v = (if k' = k then (k', v) # d else (k', v') # od_set d k v)"

definition OrderedDict :: "params \<Rightarrow> params" where
  "OrderedDict ps = foldl (\<lambda>d (k, v). od_set d k v) [] ps"

text \<open>
  \<open>t.mul_(decay)\<close> multiplies every element in place. \<open>t.add_(other, alpha=a)\<close> adds
  \<open>a * other\<close> element-wise; tensors of different sizes are refused with a RuntimeError
  (broadcasting of a smaller operand is not modelled: the shadow model is a deep copy of the
  live one). Each in-place operation is recorded for differentiation exactly when gradient
  mode is on.
\<close>

definition mul_inplace :: "tensor \<Rightarrow> real \<Rightarrow> tensor" where
  "mul_inplace t decay = map (\<lambda>x. x * decay) t"

definition add_inplace :: "tensor \<Rightarrow> tensor \<Rightarrow> real \<Rightarrow> error + tensor" where
  "add_inplace t other alpha =
     (if length other = length t then Inr (map2 (\<lambda>x y. x + alpha * y) t other)
      else Inl (RuntimeError ''size mismatch''))"

text \<open>
  The loop of \<open>update_ema\<close> over \<open>model_params.items()\<close>. \<open>ema_params[name]\<close> raises KeyError
  for a name the shadow dictionary lacks. The second component of the result counts the
  in-place operations recorded by autograd.
\<close>

fun ema_loop :: "bool \<Rightarrow> params \<Rightarrow> real \<Rightarrow> params \<times> nat \<Rightarrow> error + params \<times> nat" where
  "ema_loop grad_mode [] decay acc = Inr acc"
| "ema_loop grad_mode ((name, param) # rest) decay (ema_params, recorded) =
     (case map_of ema_params name of
        None \<Rightarrow> Inl (KeyError name)
      | Some e \<Rightarrow>
          (case add_inplace (mul_inplace e decay) param (1 - decay) of
             Inl err \<Rightarrow> Inl err
           | Inr e' \<Rightarrow>
               ema_loop grad_mode rest decay
                 (od_set ema_params name e', if grad_mode then recorded + 2 else recorded)))"

text \<open>\<open>@torch.no_grad()\<close> runs the body with gradient mode off.\<close>

definition update_ema_tracked :: "params \<Rightarrow> params \<Rightarrow> real \<Rightarrow> error + params \<times> nat" where
  "update_ema_tracked ema_model model decay =
     ema_loop False (OrderedDict model) decay (OrderedDict ema_model, 0)"

definition update_ema :: "params \<Rightarrow> params \<Rightarrow> real \<Rightarrow> error + params" where
  "update_ema ema_model model decay =
     (case update_ema_tracked ema_model model decay of
        Inl err \<Rightarrow> Inl err
      | Inr (ema', recorded) \<Rightarrow> Inr ema')"

definition default_decay :: real where
  "default_decay = 9999 / 10000"

section \<open>The loss engine\<close>

text \<open>
  \<open>infoNCE_loss_b\<close>, operation by operation. An embedding tensor of shape (batch, sequence,
  feature) is a nested list. \<open>F.normalize(p=2, dim=1)\<close> divides every row by
  \<open>max(norm, eps)\<close> with the library's default \<open>eps = 1e-12\<close>; \<open>torch.matmul(r, r.T)\<close> holds
  the dot product of rows i and j at position (i, j); \<open>F.cross_entropy\<close> is the mean over
  the rows of the negated log-softmax entry at the row's label, the mean of no rows being NaN.
\<close>

type_synonym matrix = "real list list"
type_synonym tensor3 = "real list list list"

definition default_tau :: real where
  "default_tau = 7 / 100"

definition normalize_eps :: real where
  "normalize_eps = 1 / 10 ^ 12"

definition reshape :: "tensor3 \<Rightarrow> matrix" where
  "reshape input_tensor = map concat input_tensor"

definition norm2 :: "real list \<Rightarrow> real" where
  "norm2 v = sqrt (sum_list (map (\<lambda>x. x * x) v))"

definition normalize :: "matrix \<Rightarrow> matrix" where
  "normalize m = map (\<lambda>v. map (\<lambda>x. x / max (norm2 v) normalize_eps) v) m"

definition dot :: "real list \<Rightarrow> real list \<Rightarrow> real" where
  "dot u v = sum_list (map2 (\<lambda>x y. x * y) u v)"

definition matmul_T :: "matrix \<Rightarrow> matrix \<Rightarrow> matrix" where
  "matmul_T a b = map (\<lambda>u. map (\<lambda>v. dot u v) b) a"

definition div_scalar :: "matrix \<Rightarrow> real \<Rightarrow> matrix" where
  "div_scalar m t = map (map (\<lambda>s. s / t)) m"

definition arange :: "nat \<Rightarrow> nat list" where
  "arange n = [0..<n]"

definition log_softmax :: "real list \<Rightarrow> real list" where
  "log_softmax row = map (\<lambda>x. x - ln (sum_list (map exp row))) row"

definition cross_entropy :: "matrix \<Rightarrow> nat list \<Rightarrow> error + lossval" where
  "cross_entropy logits labels =
     (if length labels \<noteq> length logits then Inl (RuntimeError ''batch size mismatch'')
      else if list_ex (\<lambda>(row, y). length row \<le> y) (zip logits labels)
        then Inl (RuntimeError ''target out of bounds'')
      else if logits = [] then Inr NaN
      else Inr (Num (sum_list (map2 (\<lambda>row y. - (log_softmax row ! y)) logits labels)
                     / real (length logits))))"

definition infoNCE_loss_b :: "tensor3 \<Rightarrow> real \<Rightarrow> error + lossval" where
  "infoNCE_loss_b input_tensor t =
     (let reshaped_tensor = reshape input_tensor;
          reshaped_tensor = normalize reshaped_tensor;
          sim_matrix = div_scalar (matmul_T reshaped_tensor reshaped_tensor) t;
          labels = arange (length reshaped_tensor)
      in cross_entropy sim_matrix labels)"

text \<open>
  The loss as the specification words it: every sample flattened to one row, every row
  divided by its Euclidean norm, the pairwise dot products divided by 0.07, and the
  categorical cross-entropy of each row of that matrix against the row's own index,
  averaged over the rows.
\<close>

definition spec_l2_normalize :: "real list \<Rightarrow> real list" where
  "spec_l2_normalize v = map (\<lambda>x. x / norm2 v) v"

definition spec_similarity :: "matrix \<Rightarrow> nat \<Rightarrow> nat \<Rightarrow> real" where
  "spec_similarity rows i j = dot (rows ! i) (rows ! j) / (7 / 100)"

definition spec_row_entropy :: "matrix \<Rightarrow> nat \<Rightarrow> real" where
  "spec_row_entropy rows i =
     - ln (exp (spec_similarity rows i i)
           / (\<Sum>j \<leftarrow> [0..<length rows]. exp (spec_similarity rows i j)))"

definition spec_entropy_of_rows :: "matrix \<Rightarrow> lossval" where
  "spec_entropy_of_rows rows =
     (if rows = [] then NaN
      else Num ((\<Sum>i \<leftarrow> [0..<length rows]. spec_row_entropy rows i) / real (length rows)))"

definition spec_contrastive_loss :: "tensor3 \<Rightarrow> lossval" where
  "spec_contrastive_loss x = spec_entropy_of_rows (map (\<lambda>s. spec_l2_normalize (concat s)) x)"

text \<open>The same with the norm clamped below at \<open>1e-12\<close>, as \<open>F.normalize\<close> does.\<close>

definition clamped_l2_normalize :: "real list \<Rightarrow> real list" where
  "clamped_l2_normalize v = map (\<lambda>x. x / max (norm2 v) (1 / 10 ^ 12)) v"

definition clamped_contrastive_loss :: "tensor3 \<Rightarrow> lossval" where
  "clamped_contrastive_loss x =
     spec_entropy_of_rows (map (\<lambda>s. clamped_l2_normalize (concat s)) x)"

definition scale_tensor :: "real \<Rightarrow> tensor3 \<Rightarrow> tensor3" where
  "scale_tensor c x = map (map (map (\<lambda>v. c * v))) x"

section \<open>Configuration, formatting and logging\<close>

text \<open>The options the argument parser defines, with the types it gives them.\<close>

record args =
  results_dir :: string
  image_size :: int
  epochs :: int
  global_batch_size :: int
  global_seed :: int
  num_workers :: int
  log_every :: int
  vae :: string
  ckpt_every :: int
  wandb :: bool
  embed_dim :: int
  autocast :: bool

datatype pyval = PyStr string | PyInt int | PyBool bool

text \<open>
  The \<open>Namespace\<close> that \<open>parse_args()\<close> returns has one attribute for each
  \<open>add_argument\<close> call, named after the option with dashes turned into underscores.
  Reading any other attribute raises AttributeError.
\<close>

definition namespace :: "args \<Rightarrow> (string \<times> pyval) list" where
  "namespace a =
     [(''results_dir'', PyStr (results_dir a)),
      (''image_size'', PyInt (image_size a)),
      (''epochs'', PyInt (epochs a)),
      (''global_batch_size'', PyInt (global_batch_size a)),
      (''global_seed'', PyInt (global_seed a)),
      (''num_workers'', PyInt (num_workers a)),
      (''log_every'', PyInt (log_every a)),
      (''vae'', PyStr (vae a)),
      (''ckpt_every'', PyInt (ckpt_every a)),
      (''wandb'', PyBool (wandb a)),
      (''embed_dim'', PyInt (embed_dim a)),
      (''autocast'', PyBool (autocast a))]"

definition getattr :: "(string \<times> pyval) list \<Rightarrow> string \<Rightarrow> error + pyval" where
  "getattr ns name = (case map_of ns name of None \<Rightarrow> Inl (AttributeError name) | Some v \<Rightarrow> Inr v)"

text \<open>Decimal printing: \<open>str(n)\<close> and the format specification \<open>0wd\<close>.\<close>

definition digit_char :: "nat \<Rightarrow> char" where
  "digit_char n = ''0123456789'' ! n"

fun dec_nat :: "nat \<Rightarrow> string" where
  "dec_nat n = (if n < 10 then [digit_char n] else dec_nat (n div 10) @ [digit_char (n mod 10)])"

declare dec_nat.simps [simp del]

definition format_0d :: "nat \<Rightarrow> int \<Rightarrow> string" where
  "format_0d width i =
     (let s = dec_nat (nat \<bar>i\<bar>)
      in if i < 0 then CHR ''-'' # replicate (width - 1 - length s) CHR ''0'' @ s
         else replicate (width - length s) CHR ''0'' @ s)"

text \<open>
  The logger is loguru's global \<open>logger\<close>, which starts with one handler writing to
  standard error. \<open>create_logger\<close> adds a file handler on rank 0 only and returns the same
  logger on every rank. \<open>logger.info\<close> hands the message to every handler.
\<close>

datatype sink = Stderr | File string

datatype logmsg =
    ExperimentDirCreated string
  | ParameterCount
  | TrainingFor int
  | BeginningEpoch nat
  | NanIgnore
  | Metrics real string real real
  | SavedCheckpoint string

definition loguru_logger :: "sink list" where
  "loguru_logger = [Stderr]"

definition create_logger :: "nat \<Rightarrow> string \<Rightarrow> sink list \<Rightarrow> sink list" where
  "create_logger rnk logging_dir lg =
     (if rnk = 0 then lg @ [File (logging_dir @ ''/log'' @ ''_'' @ dec_nat rnk @ ''.txt'')]
      else lg)"

section \<open>The gradient scaler\<close>

text \<open>
  \<open>torch.cuda.amp.GradScaler\<close> with its default arguments: enabled, initial scale
  \<open>2 ^ 16\<close>, growth factor 2, backoff factor 1/2, growth interval 2000. \<open>scale\<close>
  multiplies the loss by the current scale; \<open>step\<close> runs the optimizer unless the unscaled
  gradients hold an infinity or a NaN; \<open>update\<close> adjusts the scale. A disabled scaler
  passes everything through.
\<close>

record grad_scaler =
  sc_enabled :: bool
  sc_scale :: real
  sc_growth_tracker :: nat

definition GradScaler :: grad_scaler where
  "GradScaler = \<lparr>sc_enabled = True, sc_scale = 65536, sc_growth_tracker = 0\<rparr>"

definition GradScaler_scale :: "grad_scaler \<Rightarrow> real \<Rightarrow> real" where
  "GradScaler_scale sc v = (if sc_enabled sc then v * sc_scale sc else v)"

definition GradScaler_step :: "grad_scaler \<Rightarrow> bool \<Rightarrow> bool" where
  "GradScaler_step sc found_inf = (if sc_enabled sc then \<not> found_inf else True)"

definition GradScaler_update :: "grad_scaler \<Rightarrow> bool \<Rightarrow> grad_scaler" where
  "GradScaler_update sc found_inf =
     (if \<not> sc_enabled sc then sc
      else if found_inf then sc\<lparr>sc_scale := sc_scale sc * (1 / 2), sc_growth_tracker := 0\<rparr>
      else if sc_growth_tracker sc + 1 = 2000
        then sc\<lparr>sc_scale := sc_scale sc * 2, sc_growth_tracker := 0\<rparr>
      else sc\<lparr>sc_growth_tracker := sc_growth_tracker sc + 1\<rparr>)"

section \<open>One process of the training loop\<close>

text \<open>
  The checkpoint dictionary, the effects a process performs (in program order), the
  process's distributed context, and the variables of \<open>main\<close> that the loop updates.
  The optimizer's state is opaque (type \<open>'o\<close>).
\<close>

datatype 'o ckval = StateDict params | OptState 'o | Args args

type_synonym 'o checkpoint = "(string \<times> 'o ckval) list"

datatype 'o event =
    VaeEncode
  | ZeroGrad
  | Forward bool
  | WandbLog lossval
  | LogWrite sink logmsg
  | Backward real
  | ScalerStep bool
  | ScalerUpdate
  | EmaUpdate real
  | CudaSynchronize
  | AllReduce real
  | Save string "'o checkpoint"
  | Barrier

record proc_ctx =
  rank :: nat
  world_size :: nat
  logger :: "sink list"
  checkpoint_dir :: string
  len_dataset :: nat

record 'o train_state =
  train_steps :: int
  log_steps :: int
  running_loss :: real
  start_time :: real
  item :: int
  scaler :: grad_scaler
  model_params :: params
  ema_params :: params
  opt :: 'o
  trace :: "'o event list"

text \<open>
  What the surroundings feed into one iteration: the loss that the forward pass and the loss
  engine produced for the batch, whether the unscaled gradients hold a non-finite value, the
  parameters and optimizer state an executed optimizer step leaves, the two clock readings,
  and the values the other ranks contribute to the all-reduce.
\<close>

record 'o batch =
  loss :: lossval
  found_inf :: bool
  stepped_params :: params
  stepped_opt :: 'o
  end_time :: real
  reset_time :: real
  peer_avgs :: "real list"

definition logger_info :: "proc_ctx \<Rightarrow> logmsg \<Rightarrow> 'o event list" where
  "logger_info ctx msg = map (\<lambda>s. LogWrite s msg) (logger ctx)"

definition emit :: "'o event list \<Rightarrow> 'o train_state \<Rightarrow> 'o train_state" where
  "emit es st = st\<lparr>trace := trace st @ es\<rparr>"

text \<open>\<open>dist.all_reduce(t, op=SUM)\<close> leaves the sum of every rank's value in \<open>t\<close>.\<close>

definition all_reduce_SUM :: "real \<Rightarrow> real list \<Rightarrow> real" where
  "all_reduce_SUM v peers = v + sum_list peers"

text \<open>
  Lines 139 to 153: the report, taken when \<open>train_steps % log_every == 0\<close>. \<open>local_avg\<close>
  is the value the process puts into the all-reduce, \<open>running_loss / log_steps\<close>.
\<close>

definition local_avg :: "'o train_state \<Rightarrow> real" where
  "local_avg st = running_loss st / real_of_int (log_steps st)"

definition metrics_report :: "proc_ctx \<Rightarrow> args \<Rightarrow> 'o batch \<Rightarrow> 'o train_state \<Rightarrow> error + 'o train_state" where
  "metrics_report ctx a b st =
     (if end_time b - start_time st = 0 then Inl ZeroDivisionError
      else if world_size ctx = 0 then Inl ZeroDivisionError
      else if len_dataset ctx = 0 then Inl ZeroDivisionError
      else if log_steps st = 0 then Inl ZeroDivisionError
      else
        let steps_per_sec = real_of_int (log_steps st) / (end_time b - start_time st);
            epoch_isfinish =
              real_of_int (global_batch_size a div int (world_size ctx) * item st)
                / real (len_dataset ctx) * 100;
            avg_loss = all_reduce_SUM (local_avg st) (peer_avgs b) / real (world_size ctx)
        in Inr ((emit ([CudaSynchronize, AllReduce (local_avg st)]
                       @ logger_info ctx
                           (Metrics epoch_isfinish (format_0d 7 (train_steps st)) avg_loss
                              steps_per_sec)) st)
                 \<lparr>running_loss := 0, log_steps := 0, start_time := reset_time b\<rparr>))"

definition log_block :: "proc_ctx \<Rightarrow> args \<Rightarrow> 'o batch \<Rightarrow> 'o train_state \<Rightarrow> error + 'o train_state" where
  "log_block ctx a b st =
     (if log_every a = 0 then Inl ZeroDivisionError
      else if train_steps st mod log_every a = 0 then metrics_report ctx a b st
      else Inr st)"

text \<open>Lines 155 to 167: the checkpoint and the barrier.\<close>

definition checkpoint_path :: "proc_ctx \<Rightarrow> int \<Rightarrow> string" where
  "checkpoint_path ctx steps = checkpoint_dir ctx @ ''/'' @ format_0d 7 steps @ ''.pt''"

definition make_checkpoint :: "args \<Rightarrow> 'o train_state \<Rightarrow> 'o checkpoint" where
  "make_checkpoint a st =
     [(''model'', StateDict (model_params st)),
      (''ema'', StateDict (ema_params st)),
      (''opt'', OptState (opt st)),
      (''args'', Args a)]"

definition checkpoint_block :: "proc_ctx \<Rightarrow> args \<Rightarrow> 'o train_state \<Rightarrow> error + 'o train_state" where
  "checkpoint_block ctx a st =
     (if ckpt_every a = 0 then Inl ZeroDivisionError
      else if train_steps st mod ckpt_every a = 0 \<and> train_steps st > 0 then
        Inr (emit ((if rank ctx = 0
                    then Save (checkpoint_path ctx (train_steps st)) (make_checkpoint a st)
                         # logger_info ctx (SavedCheckpoint (checkpoint_path ctx (train_steps st)))
                    else [])
                   @ [Barrier]) st)
      else Inr st)"

text \<open>
  Lines 130 to 133: backward through the scaler, optimizer step, scaler update, EMA.
  \<open>scaler.step(opt)\<close> runs \<open>opt.step()\<close> or skips it; \<open>live_after\<close> and \<open>opt_after\<close>
  are the live parameters and the optimizer state it leaves.
\<close>

definition live_after :: "'o train_state \<Rightarrow> 'o batch \<Rightarrow> params" where
  "live_after st b =
     (if GradScaler_step (scaler st) (found_inf b) then stepped_params b else model_params st)"

definition opt_after :: "'o train_state \<Rightarrow> 'o batch \<Rightarrow> 'o" where
  "opt_after st b =
     (if GradScaler_step (scaler st) (found_inf b) then stepped_opt b else opt st)"

definition optimize :: "'o batch \<Rightarrow> real \<Rightarrow> 'o train_state \<Rightarrow> error + 'o train_state" where
  "optimize b v st =
     (let st1 = (emit [Backward (GradScaler_scale (scaler st) v),
                       ScalerStep (GradScaler_step (scaler st) (found_inf b)),
                       ScalerUpdate] st)
                  \<lparr>scaler := GradScaler_update (scaler st) (found_inf b),
                   model_params := live_after st b,
                   opt := opt_after st b\<rparr>
      in case update_ema (ema_params st1) (model_params st1) default_decay of
           Inl err \<Rightarrow> Inl err
         | Inr ema' \<Rightarrow> Inr ((emit [EmaUpdate default_decay] st1)\<lparr>ema_params := ema'\<rparr>))"

text \<open>
  Lines 111 to 124: the batch is counted, encoded without gradients, the gradients are
  cleared, the forward pass runs under \<open>autocast(enabled=args.autocast)\<close>, and rank 0
  sends the loss to the dashboard when that is enabled.
\<close>

definition begin_step :: "proc_ctx \<Rightarrow> args \<Rightarrow> 'o batch \<Rightarrow> 'o train_state \<Rightarrow> 'o train_state" where
  "begin_step ctx a b st =
     (emit ([VaeEncode, ZeroGrad, Forward (autocast a)]
            @ (if rank ctx = 0 \<and> wandb a then [WandbLog (loss b)] else [])) st)
       \<lparr>item := item st + 1\<rparr>"

text \<open>Lines 136 to 138: the running loss and the two step counters.\<close>

definition count_step :: "'o batch \<Rightarrow> 'o train_state \<Rightarrow> 'o train_state" where
  "count_step b st =
     st\<lparr>running_loss := running_loss st + item_of (loss b),
        log_steps := log_steps st + 1,
        train_steps := train_steps st + 1\<rparr>"

text \<open>
  The body of the loop over \<open>train_loader\<close>, lines 111 to 167. A NaN loss logs one line
  and continues with the next batch.
\<close>

definition train_step :: "proc_ctx \<Rightarrow> args \<Rightarrow> 'o train_state \<Rightarrow> 'o batch \<Rightarrow> error + 'o train_state" where
  "train_step ctx a st b =
     (if isnan (loss b) then Inr (emit (logger_info ctx NanIgnore) (begin_step ctx a b st))
      else
        (case optimize b (item_of (loss b)) (begin_step ctx a b st) of
           Inl err \<Rightarrow> Inl err
         | Inr st2 \<Rightarrow>
             (case log_block ctx a b (count_step b st2) of
                Inl err \<Rightarrow> Inl err
              | Inr st4 \<Rightarrow> checkpoint_block ctx a st4)))"

text \<open>The loop over the batches of one epoch, and the loop over the epochs.\<close>

fun run_batches :: "proc_ctx \<Rightarrow> args \<Rightarrow> 'o train_state \<Rightarrow> 'o batch list \<Rightarrow> error + 'o train_state" where
  "run_batches ctx a st [] = Inr st"
| "run_batches ctx a st (b # bs) =
     (case train_step ctx a st b of Inl err \<Rightarrow> Inl err | Inr st' \<Rightarrow> run_batches ctx a st' bs)"

fun run_epochs :: "proc_ctx \<Rightarrow> args \<Rightarrow> (nat \<Rightarrow> 'o batch list) \<Rightarrow> nat list \<Rightarrow> 'o train_state \<Rightarrow> error + 'o train_state" where
  "run_epochs ctx a loader [] st = Inr st"
| "run_epochs ctx a loader (epoch # rest) st =
     (case run_batches ctx a
             ((emit (if rank ctx = 0 then logger_info ctx (BeginningEpoch epoch) else []) st)
                \<lparr>item := 0\<rparr>)
             (loader epoch) of
        Inl err \<Rightarrow> Inl err
      | Inr st' \<Rightarrow> run_epochs ctx a loader rest st')"

section \<open>The entry point\<close>

text \<open>
  What \<open>main\<close> takes from its surroundings. The calls into other libraries between the
  two assertions (lines 53 to 75), between the second assertion and the dataset (lines 78
  to 87) and after the dataset's arguments are read (lines 89 to 91) either raise or do
  not: \<open>setup_failure\<close>, \<open>build_failure\<close> and \<open>data_failure\<close> say which.
\<close>

record 'o env =
  cuda_available :: bool
  env_rank :: nat
  env_world_size :: nat
  experiment_index :: nat
  setup_failure :: "error option"
  build_failure :: "error option"
  data_failure :: "error option"
  initial_params :: params
  initial_opt :: 'o
  dataset_size :: nat
  clock0 :: real
  loader :: "nat \<Rightarrow> 'o batch list"

definition experiment_dir :: "'o env \<Rightarrow> args \<Rightarrow> string" where
  "experiment_dir env a =
     results_dir a @ ''/'' @ format_0d 3 (int (experiment_index env)) @ ''-'' @ ''vision_encoder''"

definition setup_ctx :: "'o env \<Rightarrow> args \<Rightarrow> proc_ctx" where
  "setup_ctx env a =
     (if env_rank env = 0
      then \<lparr>rank = env_rank env, world_size = env_world_size env,
            logger = create_logger (env_rank env) (experiment_dir env a) loguru_logger,
            checkpoint_dir = experiment_dir env a @ ''/checkpoints'',
            len_dataset = dataset_size env\<rparr>
      else \<lparr>rank = env_rank env, world_size = env_world_size env,
            logger = create_logger (env_rank env) ''None'' loguru_logger,
            checkpoint_dir = [],
            len_dataset = dataset_size env\<rparr>)"

definition initial_state :: "'o env \<Rightarrow> args \<Rightarrow> proc_ctx \<Rightarrow> params \<Rightarrow> 'o train_state" where
  "initial_state env a ctx ema0 =
     \<lparr>train_steps = 0, log_steps = 0, running_loss = 0, start_time = clock0 env, item = 0,
      scaler = GradScaler, model_params = initial_params env, ema_params = ema0,
      opt = initial_opt env,
      trace = (if rank ctx = 0
               then logger_info ctx (ExperimentDirCreated (experiment_dir env a))
                    @ logger_info ctx ParameterCount
               else [])
              @ [EmaUpdate 0]
              @ (if rank ctx = 0 then logger_info ctx (TrainingFor (epochs a)) else [])\<rparr>"

text \<open>
  Line 89 reads \<open>args.ct_image_folder_train\<close>, \<open>args.mask_image_folder_train\<close> and
  \<open>args.mir_image_folder_train\<close>, in this order, as the arguments of \<open>NpyDataset\<close>.
\<close>

definition dataset_folders :: "args \<Rightarrow> error + pyval \<times> pyval \<times> pyval" where
  "dataset_folders a =
     (case getattr (namespace a) ''ct_image_folder_train'' of
        Inl err \<Rightarrow> Inl err
      | Inr ct \<Rightarrow>
          (case getattr (namespace a) ''mask_image_folder_train'' of
             Inl err \<Rightarrow> Inl err
           | Inr msk \<Rightarrow>
               (case getattr (namespace a) ''mir_image_folder_train'' of
                  Inl err \<Rightarrow> Inl err
                | Inr mir \<Rightarrow> Inr (ct, msk, mir))))"

text \<open>Lines 52 to 103 of \<open>main\<close>: everything before the loop over the epochs.\<close>

definition main_setup :: "'o env \<Rightarrow> args \<Rightarrow> error + proc_ctx \<times> 'o train_state" where
  "main_setup env a =
     (if \<not> cuda_available env
      then Inl (AssertionError ''Training currently requires at least one GPU.'')
      else
        (case setup_failure env of
           Some err \<Rightarrow> Inl err
         | None \<Rightarrow>
             (if image_size a mod 8 \<noteq> 0
              then Inl (AssertionError
                          ''Image size must be divisible by 8 (for the VAE encoder).'')
              else
                (case build_failure env of
                   Some err \<Rightarrow> Inl err
                 | None \<Rightarrow>
                     (case dataset_folders a of
                        Inl err \<Rightarrow> Inl err
                      | Inr folders \<Rightarrow>
                          (case data_failure env of
                             Some err \<Rightarrow> Inl err
                           | None \<Rightarrow>
                               (case update_ema (initial_params env) (initial_params env) 0 of
                                  Inl err \<Rightarrow> Inl err
                                | Inr ema0 \<Rightarrow>
                                    Inr (setup_ctx env a,
                                         initial_state env a (setup_ctx env a) ema0))))))))"

definition main :: "'o env \<Rightarrow> args \<Rightarrow> error + 'o train_state" where
  "main env a =
     (case main_setup env a of
        Inl err \<Rightarrow> Inl err
      | Inr (ctx, st) \<Rightarrow> run_epochs ctx a (loader env) [0..<nat (epochs a)] st)"

section \<open>Effects that change the training state, and sample inputs\<close>

text \<open>
  The effects that make up a training update: the backward pass, the optimizer step through
  the scaler, the scaler's update, the EMA update and the checkpoint write.
\<close>

fun updates_training :: "'o event \<Rightarrow> bool" where
  "updates_training (Backward v) = True"
| "updates_training (ScalerStep r) = True"
| "updates_training ScalerUpdate = True"
| "updates_training (EmaUpdate d) = True"
| "updates_training (Save p c) = True"
| "updates_training e = False"

text \<open>
  The parser's defaults (and the same with a checkpoint every ten steps), surroundings in
  which the set-up of rank \<open>r\<close> in a group of two succeeds, the process context \<open>main\<close>
  builds there, a state nine steps into a logging window, and a batch with a given loss.
\<close>

definition example_args :: args where
  "example_args = \<lparr>results_dir = ''results_ct'', image_size = 224, epochs = 100,
     global_batch_size = 32, global_seed = 0, num_workers = 4, log_every = 10, vae = ''ema'',
     ckpt_every = 6000, wandb = False, embed_dim = 512, autocast = False\<rparr>"

definition example_args_ckpt10 :: args where
  "example_args_ckpt10 = example_args\<lparr>ckpt_every := 10\<rparr>"

definition example_env :: "nat \<Rightarrow> unit env" where
  "example_env r = \<lparr>cuda_available = True, env_rank = r, env_world_size = 2,
     experiment_index = 0, setup_failure = None, build_failure = None, data_failure = None,
     initial_params = [(''w'', [1, 2])], initial_opt = (), dataset_size = 64, clock0 = 0,
     loader = (\<lambda>epoch. [])\<rparr>"

definition example_ctx :: "nat \<Rightarrow> proc_ctx" where
  "example_ctx r = setup_ctx (example_env r) example_args"

definition example_state :: "int \<Rightarrow> unit train_state" where
  "example_state n = \<lparr>train_steps = n, log_steps = 9, running_loss = 18, start_time = 0, item = 1,
     scaler = GradScaler, model_params = [(''w'', [1, 2])], ema_params = [(''w'', [0, 0])],
     opt = (), trace = []\<rparr>"

definition example_batch :: "lossval \<Rightarrow> unit batch" where
  "example_batch l = \<lparr>loss = l, found_inf = False, stepped_params = [(''w'', [3, 4])],
     stepped_opt = (), end_time = 5, reset_time = 6, peer_avgs = [4]\<rparr>"

text \<open>
  Two helpers for stating the EMA properties: \<open>covers ema_model model\<close> says that every
  name of the live dictionary is a name of the shadow dictionary, with a tensor of the same
  size; \<open>blend d s l\<close> is the element-wise value \<open>s * d + l * (1 - d)\<close>.
\<close>

definition covers :: "params \<Rightarrow> params \<Rightarrow> bool" where
  "covers ema_model model =
     list_all (\<lambda>(name, l). case map_of (OrderedDict ema_model) name of
                               None \<Rightarrow> False
                             | Some s \<Rightarrow> length s = length l)
       (OrderedDict model)"

definition blend :: "real \<Rightarrow> tensor \<Rightarrow> tensor \<Rightarrow> tensor" where
  "blend d s l = map2 (\<lambda>x y. x * d + y * (1 - d)) s l"

text \<open>
  The paths of the checkpoint writes among a list of effects, and the condition under which
  no operation of a step raises.
\<close>

fun saved_paths :: "'o event list \<Rightarrow> string list" where
  "saved_paths [] = []"
| "saved_paths (Save p c # es) = p # saved_paths es"
| "saved_paths (e # es) = saved_paths es"

definition step_ok :: "proc_ctx \<Rightarrow> args \<Rightarrow> 'o train_state \<Rightarrow> 'o batch \<Rightarrow> bool" where
  "step_ok ctx a st b =
     (isnan (loss b)
      \<or> (covers (ema_params st) (live_after st b)
         \<and> log_every a \<noteq> 0
         \<and> ckpt_every a \<noteq> 0
         \<and> ((train_steps st + 1) mod log_every a \<noteq> 0
            \<or> (end_time b \<noteq> start_time st \<and> world_size ctx \<noteq> 0 \<and> len_dataset ctx \<noteq> 0
               \<and> log_steps st + 1 \<noteq> 0))))"

text \<open>The effects of a step's result: none are recorded for a step that raised.\<close>

definition effects_of :: "error + 'o train_state \<Rightarrow> 'o event list" where
  "effects_of r = (case r of Inl err \<Rightarrow> [] | Inr st \<Rightarrow> trace st)"

text \<open>
  In a group whose ranks contribute the values \<open>vs\<close> to an all-reduce, the values that
  rank \<open>i\<close> receives from its peers.
\<close>

definition peers_of :: "nat \<Rightarrow> real list \<Rightarrow> real list" where
  "peers_of i vs = take i vs @ drop (Suc i) vs"

section \<open>Properties\<close>

subsection \<open>The NaN guard\<close>

text \<open>
  Claim C1. A step whose loss is NaN always completes, and it leaves the global step counter,
  the window's loss sum and step count, the window timer, the scaler, the live and the shadow
  parameters and the optimizer state as they were; the effects it adds to the process's trace
  contain no backward pass, no optimizer step, no scaler update, no EMA update and no
  checkpoint write.
\<close>

theorem nan_step_is_skipped:
  assumes "isnan (loss b)"
  shows "\<exists>st' es. train_step ctx a st b = Inr st'
           \<and> train_steps st' = train_steps st
           \<and> running_loss st' = running_loss st
           \<and> log_steps st' = log_steps st
           \<and> start_time st' = start_time st
           \<and> scaler st' = scaler st
           \<and> model_params st' = model_params st
           \<and> ema_params st' = ema_params st
           \<and> opt st' = opt st
           \<and> trace st' = trace st @ es
           \<and> list_all (\<lambda>e. \<not> updates_training e) es"
  using assms
  by (auto simp add: train_step_def begin_step_def emit_def logger_info_def list_all_iff)

text \<open>A NaN batch on rank 0, nine steps into the window.\<close>

theorem nan_step_is_skipped_witness:
  "isnan (loss (example_batch NaN))
   \<and> (\<exists>st' es. train_step (example_ctx 0) example_args (example_state 9) (example_batch NaN) = Inr st'
           \<and> train_steps st' = 9
           \<and> running_loss st' = 18
           \<and> log_steps st' = 9
           \<and> ema_params st' = [(''w'', [0, 0])]
           \<and> trace st' = trace (example_state 9) @ es
           \<and> list_all (\<lambda>e. \<not> updates_training e) es)"
  using nan_step_is_skipped [of "example_batch NaN" "example_ctx 0" example_args "example_state 9"]
  by (auto simp add: example_batch_def example_state_def)

subsection \<open>The EMA update\<close>

text \<open>Facts about \<open>OrderedDict\<close>: insertion keeps the keys distinct and in place.\<close>

lemma map_of_od_set: "map_of (od_set d k v) = (map_of d)(k \<mapsto> v)"
  by (induction d k v rule: od_set.induct) auto

lemma keys_od_set:
  "map fst (od_set d k v) = (if k \<in> fst ` set d then map fst d else map fst d @ [k])"
  by (induction d k v rule: od_set.induct) (auto simp: image_iff)

lemma distinct_od_set: "distinct (map fst d) \<Longrightarrow> distinct (map fst (od_set d k v))"
  by (simp add: keys_od_set)


lemma distinct_foldl_od_set:
  "distinct (map fst acc) \<Longrightarrow> distinct (map fst (foldl (\<lambda>d (k, v). od_set d k v) acc ps))"
proof (induction ps arbitrary: acc)
  case Nil
  then show ?case by simp
next
  case (Cons p ps)
  obtain k v where p: "p = (k, v)" by (cases p)
  from Cons.prems have "distinct (map fst (od_set acc k v))" by (rule distinct_od_set)
  from Cons.IH [OF this] p show ?case by simp
qed


lemma distinct_OrderedDict: "distinct (map fst (OrderedDict ps))"
  by (simp add: OrderedDict_def distinct_foldl_od_set)

lemma add_mul_inplace:
  "length l = length s \<Longrightarrow> add_inplace (mul_inplace s d) l (1 - d) = Inr (blend d s l)"
  by (auto simp add: add_inplace_def mul_inplace_def blend_def zip_map1 mult.commute)

lemma ema_loop_law:
  assumes "distinct (map fst live)"
    and "list_all (\<lambda>(name, l). case map_of ema name of None \<Rightarrow> False | Some s \<Rightarrow> length s = length l) live"
  shows "\<exists>ema'. ema_loop g live d (ema, r) = Inr (ema', if g then r + 2 * length live else r)
           \<and> map fst ema' = map fst ema
           \<and> (\<forall>name. map_of ema' name =
                 (case map_of live name of
                    None \<Rightarrow> map_of ema name
                  | Some l \<Rightarrow> map_option (\<lambda>s. blend d s l) (map_of ema name)))"
  using assms
proof (induction live arbitrary: ema r)
  case Nil
  then show ?case by simp
next
  case (Cons p live)
  obtain n l where p: "p = (n, l)" by (cases p)
  from Cons.prems p obtain s where s: "map_of ema n = Some s" "length s = length l"
    by (auto split: option.splits)
  let ?ema1 = "od_set ema n (blend d s l)"
  have keys1: "map fst ?ema1 = map fst ema"
    using s(1) by (auto simp: keys_od_set map_of_eq_None_iff [symmetric])
  have d': "distinct (map fst live)" and notin: "n \<notin> fst ` set live"
    using Cons.prems(1) p by auto
  have cov: "list_all (\<lambda>(name, l). case map_of ?ema1 name of None \<Rightarrow> False | Some s \<Rightarrow> length s = length l) live"
  proof -
    have "map_of ?ema1 a = map_of ema a" if "(a, b) \<in> set live" for a b
      using that notin by (auto simp: map_of_od_set image_iff)
    moreover have "list_all (\<lambda>(name, l). case map_of ema name of None \<Rightarrow> False | Some s \<Rightarrow> length s = length l) live"
      using Cons.prems(2) by simp
    ultimately show ?thesis
      by (auto simp: list_all_iff split: option.splits)
  qed
  from Cons.IH [OF d' cov, of "if g then r + 2 else r"]
  obtain ema' where e: "ema_loop g live d (?ema1, if g then r + 2 else r)
        = Inr (ema', if g then (if g then r + 2 else r) + 2 * length live else (if g then r + 2 else r))"
      "map fst ema' = map fst ?ema1"
      "\<forall>name. map_of ema' name =
                 (case map_of live name of
                    None \<Rightarrow> map_of ?ema1 name
                  | Some l \<Rightarrow> map_option (\<lambda>s. blend d s l) (map_of ?ema1 name))"
    by blast
  have none: "map_of live n = None"
    using notin by (simp add: map_of_eq_None_iff)
  have "ema_loop g (p # live) d (ema, r) = Inr (ema', if g then r + 2 * length (p # live) else r)"
    using e(1) s p by (simp add: add_mul_inplace)
  moreover have "map fst ema' = map fst ema" using e(2) keys1 by simp
  moreover have "\<forall>name. map_of ema' name =
                 (case map_of (p # live) name of
                    None \<Rightarrow> map_of ema name
                  | Some l \<Rightarrow> map_option (\<lambda>s. blend d s l) (map_of ema name))"
    using e(3) none s p by (auto simp: map_of_od_set split: option.splits)
  ultimately show ?case by blast
qed

lemma blend_zero: "length s = length l \<Longrightarrow> blend 0 s l = l"
  by (induction s l rule: list_induct2) (simp_all add: blend_def)

text \<open>
  Claim C2. When every live name is in the shadow dictionary (with a tensor of the same
  size), one EMA update with decay \<open>d\<close> completes, records no operation for differentiation,
  keeps the shadow dictionary's keys, and sets the shadow tensor of every live name
  element-wise to \<open>shadow * d + live * (1 - d)\<close>; with \<open>d = 0\<close> the shadow tensor of every
  live name equals the live tensor.
\<close>

theorem update_ema_law:
  assumes "covers ema_model model"
  shows "\<exists>ema'. update_ema ema_model model d = Inr ema'
           \<and> update_ema_tracked ema_model model d = Inr (ema', 0)
           \<and> map fst ema' = map fst (OrderedDict ema_model)
           \<and> (\<forall>name l. map_of (OrderedDict model) name = Some l \<longrightarrow>
                 (\<exists>s. map_of (OrderedDict ema_model) name = Some s
                    \<and> length s = length l
                    \<and> map_of ema' name = Some (map2 (\<lambda>x y. x * d + y * (1 - d)) s l)
                    \<and> (d = 0 \<longrightarrow> map_of ema' name = Some l)))"
proof -
  from ema_loop_law [OF distinct_OrderedDict assms [unfolded covers_def], of False d 0]
  obtain ema' where e: "ema_loop False (OrderedDict model) d (OrderedDict ema_model, 0) = Inr (ema', 0)"
      "map fst ema' = map fst (OrderedDict ema_model)"
      "\<forall>name. map_of ema' name =
                 (case map_of (OrderedDict model) name of
                    None \<Rightarrow> map_of (OrderedDict ema_model) name
                  | Some l \<Rightarrow> map_option (\<lambda>s. blend d s l) (map_of (OrderedDict ema_model) name))"
    by auto
  have "\<exists>s. map_of (OrderedDict ema_model) name = Some s
                    \<and> length s = length l
                    \<and> map_of ema' name = Some (map2 (\<lambda>x y. x * d + y * (1 - d)) s l)
                    \<and> (d = 0 \<longrightarrow> map_of ema' name = Some l)"
    if live: "map_of (OrderedDict model) name = Some l" for name l
  proof -
    from live have "(name, l) \<in> set (OrderedDict model)" by (rule map_of_SomeD)
    with assms obtain s where s: "map_of (OrderedDict ema_model) name = Some s" "length s = length l"
      by (auto simp: covers_def list_all_iff split: option.splits)
    from e(3) live s have new: "map_of ema' name = Some (blend d s l)" by simp
    with s blend_zero [of s l] show ?thesis by (auto simp: blend_def)
  qed
  with e(1,2) show ?thesis
    by (simp add: update_ema_def update_ema_tracked_def)
qed

text \<open>Decay 0.9999, live value 1, shadow value 0: the shadow value becomes 0.0001.\<close>

theorem update_ema_law_witness:
  "covers [(''w'', [0])] [(''w'', [1])]
   \<and> (\<exists>ema'. update_ema [(''w'', [0])] [(''w'', [1])] default_decay = Inr ema'
         \<and> update_ema_tracked [(''w'', [0])] [(''w'', [1])] default_decay = Inr (ema', 0)
         \<and> map_of ema' ''w'' = Some [1 / 10000])"
proof -
  have c: "covers [(''w'', [0])] [(''w'', [1])]"
    by (simp add: covers_def OrderedDict_def)
  from update_ema_law [OF c, of default_decay]
  obtain ema' where e: "update_ema [(''w'', [0])] [(''w'', [1])] default_decay = Inr ema'"
      "update_ema_tracked [(''w'', [0])] [(''w'', [1])] default_decay = Inr (ema', 0)"
      "\<forall>name l. map_of (OrderedDict [(''w'', [1])]) name = Some l \<longrightarrow>
                 (\<exists>s. map_of (OrderedDict [(''w'', [0])]) name = Some s
                    \<and> length s = length l
                    \<and> map_of ema' name
                        = Some (map2 (\<lambda>x y. x * default_decay + y * (1 - default_decay)) s l)
                    \<and> (default_decay = 0 \<longrightarrow> map_of ema' name = Some l))"
    by blast
  have "map_of (OrderedDict [(''w'', [1::real])]) ''w'' = Some [1]"
    by (simp add: OrderedDict_def)
  with e(3) obtain s where s: "map_of (OrderedDict [(''w'', [0::real])]) ''w'' = Some s"
      "map_of ema' ''w'' = Some (map2 (\<lambda>x y. x * default_decay + y * (1 - default_decay)) s [1])"
    by blast
  from s(1) have "s = [0]" by (simp add: OrderedDict_def)
  with s(2) have "map_of ema' ''w'' = Some [1 / 10000]"
    by (simp add: default_decay_def)
  with c e(1,2) show ?thesis by blast
qed





subsection \<open>The blocks of a step\<close>

lemma saved_paths_append: "saved_paths (xs @ ys) = saved_paths xs @ saved_paths ys"
  by (induction xs rule: saved_paths.induct) simp_all

lemma saved_paths_LogWrite: "saved_paths (map (\<lambda>s. LogWrite s msg) ss) = []"
  by (induction ss) simp_all

lemma saved_paths_logger_info: "saved_paths (logger_info ctx msg) = []"
  by (simp add: logger_info_def saved_paths_LogWrite)

lemma emit_fields:
  "trace (emit es st) = trace st @ es"
  "train_steps (emit es st) = train_steps st"
  "log_steps (emit es st) = log_steps st"
  "running_loss (emit es st) = running_loss st"
  "start_time (emit es st) = start_time st"
  "item (emit es st) = item st"
  "scaler (emit es st) = scaler st"
  "model_params (emit es st) = model_params st"
  "ema_params (emit es st) = ema_params st"
  "opt (emit es st) = opt st"
  by (simp_all add: emit_def)

lemma live_after_begin_step: "live_after (begin_step ctx a b st) b = live_after st b"
  by (simp add: live_after_def begin_step_def emit_def)

lemma optimize_Inr:
  assumes "optimize b v st = Inr st2"
  shows "update_ema (ema_params st) (live_after st b) default_decay = Inr (ema_params st2)"
    and "model_params st2 = live_after st b"
    and "scaler st2 = GradScaler_update (scaler st) (found_inf b)"
    and "opt st2 = opt_after st b"
    and "trace st2 = trace st @ [Backward (GradScaler_scale (scaler st) v),
                                 ScalerStep (GradScaler_step (scaler st) (found_inf b)),
                                 ScalerUpdate, EmaUpdate default_decay]"
    and "train_steps st2 = train_steps st" and "log_steps st2 = log_steps st"
    and "running_loss st2 = running_loss st" and "start_time st2 = start_time st"
    and "item st2 = item st"
proof -
  let ?st1 = "(emit [Backward (GradScaler_scale (scaler st) v),
                     ScalerStep (GradScaler_step (scaler st) (found_inf b)), ScalerUpdate] st)
                \<lparr>scaler := GradScaler_update (scaler st) (found_inf b),
                 model_params := live_after st b, opt := opt_after st b\<rparr>"
  have unf: "optimize b v st =
      (case update_ema (ema_params st) (live_after st b) default_decay of
         Inl err \<Rightarrow> Inl err
       | Inr ema' \<Rightarrow> Inr ((emit [EmaUpdate default_decay] ?st1)\<lparr>ema_params := ema'\<rparr>))"
    by (simp add: optimize_def emit_fields Let_def)
  from assms unf obtain ema' where
    u: "update_ema (ema_params st) (live_after st b) default_decay = Inr ema'" and
    e: "st2 = (emit [EmaUpdate default_decay] ?st1)\<lparr>ema_params := ema'\<rparr>"
    by (cases "update_ema (ema_params st) (live_after st b) default_decay") simp_all
  from e have "ema_params st2 = ema'" by simp
  with u show "update_ema (ema_params st) (live_after st b) default_decay = Inr (ema_params st2)"
    by simp
  from e show "model_params st2 = live_after st b" by (simp add: emit_fields)
  from e show "scaler st2 = GradScaler_update (scaler st) (found_inf b)" by (simp add: emit_fields)
  from e show "opt st2 = opt_after st b" by (simp add: emit_fields)
  from e show "trace st2 = trace st @ [Backward (GradScaler_scale (scaler st) v),
                                 ScalerStep (GradScaler_step (scaler st) (found_inf b)),
                                 ScalerUpdate, EmaUpdate default_decay]"
    by (simp add: emit_fields)
  from e show "train_steps st2 = train_steps st" by (simp add: emit_fields)
  from e show "log_steps st2 = log_steps st" by (simp add: emit_fields)
  from e show "running_loss st2 = running_loss st" by (simp add: emit_fields)
  from e show "start_time st2 = start_time st" by (simp add: emit_fields)
  from e show "item st2 = item st" by (simp add: emit_fields)
qed

lemma update_ema_returns:
  assumes "covers ema_model model"
  shows "\<exists>ema'. update_ema ema_model model d = Inr ema'"
proof -
  from ema_loop_law [OF distinct_OrderedDict assms [unfolded covers_def], of False d 0]
  obtain ema' where "ema_loop False (OrderedDict model) d (OrderedDict ema_model, 0) = Inr (ema', 0)"
    by auto
  then show ?thesis
    by (simp add: update_ema_def update_ema_tracked_def)
qed

lemma optimize_returns:
  assumes "covers (ema_params st) (live_after st b)"
  shows "\<exists>st2. optimize b v st = Inr st2"
proof -
  from update_ema_returns [OF assms, of default_decay]
  obtain ema' where "update_ema (ema_params st) (live_after st b) default_decay = Inr ema'"
    by blast
  then show ?thesis
    by (simp add: optimize_def emit_fields Let_def)
qed

lemma metrics_report_Inr:
  assumes "metrics_report ctx a b st = Inr st'"
  shows "train_steps st' = train_steps st \<and> model_params st' = model_params st
         \<and> ema_params st' = ema_params st \<and> opt st' = opt st \<and> scaler st' = scaler st
         \<and> item st' = item st
         \<and> (\<exists>es. trace st' = trace st @ es \<and> saved_paths es = [])"
  using assms
  by (auto simp: metrics_report_def emit_def Let_def saved_paths_logger_info split: if_splits)

lemma log_block_Inr:
  assumes "log_block ctx a b st = Inr st'"
  shows "train_steps st' = train_steps st \<and> model_params st' = model_params st
         \<and> ema_params st' = ema_params st \<and> opt st' = opt st \<and> scaler st' = scaler st
         \<and> item st' = item st
         \<and> (\<exists>es. trace st' = trace st @ es \<and> saved_paths es = [])"
proof (cases "train_steps st mod log_every a = 0")
  case True
  with assms have "metrics_report ctx a b st = Inr st'"
    by (simp add: log_block_def split: if_splits)
  from metrics_report_Inr [OF this] show ?thesis .
next
  case False
  with assms have "st' = st" by (simp add: log_block_def split: if_splits)
  then show ?thesis by simp
qed

lemma log_block_returns:
  assumes "log_every a \<noteq> 0"
    and "train_steps st mod log_every a \<noteq> 0
         \<or> (end_time b \<noteq> start_time st \<and> world_size ctx \<noteq> 0 \<and> len_dataset ctx \<noteq> 0
            \<and> log_steps st \<noteq> 0)"
  shows "\<exists>st'. log_block ctx a b st = Inr st'"
  using assms by (auto simp: log_block_def metrics_report_def Let_def)

lemma checkpoint_block_Inr:
  assumes "checkpoint_block ctx a st = Inr st'"
  shows "train_steps st' = train_steps st \<and> model_params st' = model_params st
         \<and> ema_params st' = ema_params st \<and> opt st' = opt st \<and> scaler st' = scaler st
         \<and> item st' = item st
         \<and> (\<exists>es. trace st' = trace st @ es
             \<and> saved_paths es =
                 (if rank ctx = 0 \<and> train_steps st mod ckpt_every a = 0 \<and> train_steps st > 0
                  then [checkpoint_path ctx (train_steps st)] else [])
             \<and> (\<forall>p c. Save p c \<in> set es \<longrightarrow>
                   p = checkpoint_path ctx (train_steps st) \<and> c = make_checkpoint a st))"
  using assms
  by (auto simp: checkpoint_block_def emit_def saved_paths_append saved_paths_LogWrite
      logger_info_def split: if_splits)

lemma checkpoint_block_returns:
  "ckpt_every a \<noteq> 0 \<Longrightarrow> \<exists>st'. checkpoint_block ctx a st = Inr st'"
  by (simp add: checkpoint_block_def)

lemma train_step_stages:
  assumes "\<not> isnan (loss b)" and "train_step ctx a st b = Inr st'"
  shows "\<exists>st2 st4. optimize b (item_of (loss b)) (begin_step ctx a b st) = Inr st2
           \<and> log_block ctx a b (count_step b st2) = Inr st4
           \<and> checkpoint_block ctx a st4 = Inr st'"
proof (cases "optimize b (item_of (loss b)) (begin_step ctx a b st)")
  case (Inl err)
  with assms show ?thesis by (simp add: train_step_def)
next
  case o: (Inr st2)
  show ?thesis
  proof (cases "log_block ctx a b (count_step b st2)")
    case (Inl err)
    with assms o show ?thesis by (simp add: train_step_def)
  next
    case (Inr st4)
    with assms o show ?thesis by (simp add: train_step_def)
  qed
qed

lemma begin_step_fields:
  "trace (begin_step ctx a b st) =
     trace st @ [VaeEncode, ZeroGrad, Forward (autocast a)]
       @ (if rank ctx = 0 \<and> wandb a then [WandbLog (loss b)] else [])"
  "train_steps (begin_step ctx a b st) = train_steps st"
  "log_steps (begin_step ctx a b st) = log_steps st"
  "running_loss (begin_step ctx a b st) = running_loss st"
  "start_time (begin_step ctx a b st) = start_time st"
  "scaler (begin_step ctx a b st) = scaler st"
  "model_params (begin_step ctx a b st) = model_params st"
  "ema_params (begin_step ctx a b st) = ema_params st"
  "opt (begin_step ctx a b st) = opt st"
  by (simp_all add: begin_step_def emit_def)

lemma count_step_fields:
  "trace (count_step b st) = trace st"
  "train_steps (count_step b st) = train_steps st + 1"
  "log_steps (count_step b st) = log_steps st + 1"
  "running_loss (count_step b st) = running_loss st + item_of (loss b)"
  "start_time (count_step b st) = start_time st"
  "scaler (count_step b st) = scaler st"
  "model_params (count_step b st) = model_params st"
  "ema_params (count_step b st) = ema_params st"
  "opt (count_step b st) = opt st"
  by (simp_all add: count_step_def)

lemma train_step_Inr:
  assumes "\<not> isnan (loss b)" and "train_step ctx a st b = Inr st'"
  shows "train_steps st' = train_steps st + 1"
    and "model_params st' = live_after st b"
    and "update_ema (ema_params st) (live_after st b) default_decay = Inr (ema_params st')"
    and "scaler st' = GradScaler_update (scaler st) (found_inf b)"
    and "\<exists>es1 es2.
           trace st' = trace st @ [VaeEncode, ZeroGrad, Forward (autocast a)]
              @ (if rank ctx = 0 \<and> wandb a then [WandbLog (loss b)] else [])
              @ [Backward (GradScaler_scale (scaler st) (item_of (loss b))),
                 ScalerStep (GradScaler_step (scaler st) (found_inf b)),
                 ScalerUpdate, EmaUpdate default_decay] @ es1 @ es2
           \<and> saved_paths es1 = []
           \<and> saved_paths es2 =
               (if rank ctx = 0 \<and> train_steps st' mod ckpt_every a = 0 \<and> train_steps st' > 0
                then [checkpoint_path ctx (train_steps st')] else [])
           \<and> (\<forall>p c. Save p c \<in> set es2 \<longrightarrow>
                 p = checkpoint_path ctx (train_steps st') \<and> c = make_checkpoint a st')"
proof -
  from train_step_stages [OF assms] obtain st2 st4 where
    o: "optimize b (item_of (loss b)) (begin_step ctx a b st) = Inr st2" and
    l: "log_block ctx a b (count_step b st2) = Inr st4" and
    c: "checkpoint_block ctx a st4 = Inr st'"
    by blast
  note s2 = optimize_Inr [OF o, unfolded live_after_begin_step begin_step_fields]
  from log_block_Inr [OF l, unfolded count_step_fields] obtain es1 where
    s4: "train_steps st4 = train_steps st2 + 1" "model_params st4 = model_params st2"
        "ema_params st4 = ema_params st2" "opt st4 = opt st2" "scaler st4 = scaler st2"
        "trace st4 = trace st2 @ es1" "saved_paths es1 = []"
    by (elim exE conjE)
  from checkpoint_block_Inr [OF c] obtain es2 where
    s5: "train_steps st' = train_steps st4" "model_params st' = model_params st4"
        "ema_params st' = ema_params st4" "opt st' = opt st4" "scaler st' = scaler st4"
        "trace st' = trace st4 @ es2"
        "saved_paths es2 =
           (if rank ctx = 0 \<and> train_steps st4 mod ckpt_every a = 0 \<and> train_steps st4 > 0
            then [checkpoint_path ctx (train_steps st4)] else [])"
        "\<forall>p c. Save p c \<in> set es2 \<longrightarrow>
           p = checkpoint_path ctx (train_steps st4) \<and> c = make_checkpoint a st4"
    by (elim exE conjE)
  have mk: "make_checkpoint a st4 = make_checkpoint a st'"
    by (simp add: make_checkpoint_def s5(2,3,4))
  show "train_steps st' = train_steps st + 1" using s2(6) s4(1) s5(1) by simp
  show "model_params st' = live_after st b" using s2(2) s4(2) s5(2) by simp
  show "update_ema (ema_params st) (live_after st b) default_decay = Inr (ema_params st')"
    using s2(1) s4(3) s5(3) by simp
  show "scaler st' = GradScaler_update (scaler st) (found_inf b)"
    using s2(3) s4(5) s5(5) by simp
  have tr: "trace st' = trace st @ [VaeEncode, ZeroGrad, Forward (autocast a)]
              @ (if rank ctx = 0 \<and> wandb a then [WandbLog (loss b)] else [])
              @ [Backward (GradScaler_scale (scaler st) (item_of (loss b))),
                 ScalerStep (GradScaler_step (scaler st) (found_inf b)),
                 ScalerUpdate, EmaUpdate default_decay] @ es1 @ es2"
    using s2(5) s4(6) s5(6) by simp
  have p2: "saved_paths es2 =
               (if rank ctx = 0 \<and> train_steps st' mod ckpt_every a = 0 \<and> train_steps st' > 0
                then [checkpoint_path ctx (train_steps st')] else [])"
    using s5(7) s5(1) by simp
  have c2: "\<forall>p c. Save p c \<in> set es2 \<longrightarrow>
                 p = checkpoint_path ctx (train_steps st') \<and> c = make_checkpoint a st'"
    using s5(8) s5(1) mk by simp
  show "\<exists>es1 es2.
           trace st' = trace st @ [VaeEncode, ZeroGrad, Forward (autocast a)]
              @ (if rank ctx = 0 \<and> wandb a then [WandbLog (loss b)] else [])
              @ [Backward (GradScaler_scale (scaler st) (item_of (loss b))),
                 ScalerStep (GradScaler_step (scaler st) (found_inf b)),
                 ScalerUpdate, EmaUpdate default_decay] @ es1 @ es2
           \<and> saved_paths es1 = []
           \<and> saved_paths es2 =
               (if rank ctx = 0 \<and> train_steps st' mod ckpt_every a = 0 \<and> train_steps st' > 0
                then [checkpoint_path ctx (train_steps st')] else [])
           \<and> (\<forall>p c. Save p c \<in> set es2 \<longrightarrow>
                 p = checkpoint_path ctx (train_steps st') \<and> c = make_checkpoint a st')"
    apply (rule exI [of _ es1])
    apply (rule exI [of _ es2])
    apply (intro conjI)
       apply (rule tr)
      apply (rule s4(7))
     apply (rule p2)
    apply (rule c2)
    done
qed

lemma train_step_returns:
  assumes "step_ok ctx a st b"
  shows "\<exists>st'. train_step ctx a st b = Inr st'"
proof (cases "isnan (loss b)")
  case True
  then show ?thesis by (simp add: train_step_def)
next
  case False
  from assms False have ok: "covers (ema_params st) (live_after st b)" "log_every a \<noteq> 0"
      "ckpt_every a \<noteq> 0"
      "(train_steps st + 1) mod log_every a \<noteq> 0
        \<or> (end_time b \<noteq> start_time st \<and> world_size ctx \<noteq> 0 \<and> len_dataset ctx \<noteq> 0
           \<and> log_steps st + 1 \<noteq> 0)"
    by (simp_all add: step_ok_def)
  have "covers (ema_params (begin_step ctx a b st)) (live_after (begin_step ctx a b st) b)"
    using ok(1) by (simp add: live_after_begin_step begin_step_fields)
  from optimize_returns [OF this] obtain st2 where
    o: "optimize b (item_of (loss b)) (begin_step ctx a b st) = Inr st2" by blast
  note s2 = optimize_Inr [OF o, unfolded live_after_begin_step begin_step_fields]
  have "train_steps (count_step b st2) mod log_every a \<noteq> 0
         \<or> (end_time b \<noteq> start_time (count_step b st2) \<and> world_size ctx \<noteq> 0
            \<and> len_dataset ctx \<noteq> 0 \<and> log_steps (count_step b st2) \<noteq> 0)"
    using ok(4) s2(6,7,9) by (simp add: count_step_fields)
  from log_block_returns [OF ok(2) this] obtain st4 where
    l: "log_block ctx a b (count_step b st2) = Inr st4" by blast
  from checkpoint_block_returns [OF ok(3)] obtain st5 where
    c: "checkpoint_block ctx a st4 = Inr st5" by blast
  from False o l c show ?thesis
    by (simp add: train_step_def)
qed

subsection \<open>Checkpoints\<close>

lemma Save_in_saved_paths: "Save p c \<in> set es \<Longrightarrow> p \<in> set (saved_paths es)"
  by (induction es rule: saved_paths.induct) auto

lemma train_step_saves:
  assumes "step_ok ctx a st b"
  shows "\<exists>st' es. train_step ctx a st b = Inr st' \<and> trace st' = trace st @ es
           \<and> train_steps st' = (if isnan (loss b) then train_steps st else train_steps st + 1)
           \<and> saved_paths es =
               (if \<not> isnan (loss b) \<and> rank ctx = 0 \<and> train_steps st' mod ckpt_every a = 0
                   \<and> 0 < train_steps st'
                then [checkpoint_path ctx (train_steps st')] else [])
           \<and> (\<forall>p c. Save p c \<in> set es \<longrightarrow> c = make_checkpoint a st')"
proof (cases "isnan (loss b)")
  case True
  let ?es = "[VaeEncode, ZeroGrad, Forward (autocast a)]
              @ (if rank ctx = 0 \<and> wandb a then [WandbLog (loss b)] else [])
              @ logger_info ctx NanIgnore"
  let ?st' = "emit (logger_info ctx NanIgnore) (begin_step ctx a b st)"
  have 1: "train_step ctx a st b = Inr ?st'" using True by (simp add: train_step_def)
  have 2: "trace ?st' = trace st @ ?es" by (simp add: emit_fields begin_step_fields)
  have 3: "train_steps ?st' = train_steps st" by (simp add: emit_fields begin_step_fields)
  have 4: "saved_paths ?es = []"
    by (simp add: saved_paths_append saved_paths_logger_info)
  have 5: "\<forall>p c. Save p c \<in> set ?es \<longrightarrow> c = make_checkpoint a ?st'"
    using 4 Save_in_saved_paths [of _ _ ?es] by (metis empty_iff empty_set)
  show ?thesis
    apply (rule exI [of _ ?st'])
    apply (rule exI [of _ ?es])
    using True 1 2 3 4 5 apply simp
    done
next
  case False
  from train_step_returns [OF assms] obtain st' where r: "train_step ctx a st b = Inr st'"
    by blast
  note f = train_step_Inr [OF False r]
  let ?pre = "[VaeEncode, ZeroGrad, Forward (autocast a)]
              @ (if rank ctx = 0 \<and> wandb a then [WandbLog (loss b)] else [])
              @ [Backward (GradScaler_scale (scaler st) (item_of (loss b))),
                 ScalerStep (GradScaler_step (scaler st) (found_inf b)),
                 ScalerUpdate, EmaUpdate default_decay]"
  from f(5) obtain es1 es2 where
    t: "trace st' = trace st @ ?pre @ es1 @ es2" and
    p1: "saved_paths es1 = []" and
    p2: "saved_paths es2 =
               (if rank ctx = 0 \<and> train_steps st' mod ckpt_every a = 0 \<and> train_steps st' > 0
                then [checkpoint_path ctx (train_steps st')] else [])" and
    c2: "\<forall>p c. Save p c \<in> set es2 \<longrightarrow>
                 p = checkpoint_path ctx (train_steps st') \<and> c = make_checkpoint a st'"
    by (elim exE conjE) simp
  have p0: "saved_paths ?pre = []" by (simp add: saved_paths_append)
  have n0: "Save p c \<notin> set ?pre" for p c
    using Save_in_saved_paths [of p c ?pre] p0 by (metis empty_iff empty_set)
  have n1: "Save p c \<notin> set es1" for p c
    using Save_in_saved_paths [of p c es1] p1 by (metis empty_iff empty_set)
  have 4: "saved_paths (?pre @ es1 @ es2) =
               (if \<not> isnan (loss b) \<and> rank ctx = 0 \<and> train_steps st' mod ckpt_every a = 0
                   \<and> 0 < train_steps st'
                then [checkpoint_path ctx (train_steps st')] else [])"
    using p0 p1 p2 False by (simp only: saved_paths_append) simp
  have 5: "\<forall>p c. Save p c \<in> set (?pre @ es1 @ es2) \<longrightarrow> c = make_checkpoint a st'"
    using n0 n1 c2 by (metis Un_iff set_append)
  show ?thesis
    apply (rule exI [of _ st'])
    apply (rule exI [of _ "?pre @ es1 @ es2"])
    using False r t f(1) 4 5 apply simp
    done
qed

text \<open>The sample step, evaluated on rank 0 (with a checkpoint due) and on rank 1.\<close>

lemma example_ctx_0:
  "example_ctx 0 = \<lparr>rank = 0, world_size = 2,
     logger = [Stderr, File ''results_ct/000-vision_encoder/log_0.txt''],
     checkpoint_dir = ''results_ct/000-vision_encoder/checkpoints'', len_dataset = 64\<rparr>"
proof -
  have "format_0d 3 0 = ''000''" "dec_nat 0 = ''0''" by code_simp+
  then show ?thesis
    by (simp add: example_ctx_def setup_ctx_def example_env_def example_args_def
        experiment_dir_def create_logger_def loguru_logger_def)
qed

lemma example_ctx_1:
  "example_ctx (Suc 0) = \<lparr>rank = 1, world_size = 2, logger = [Stderr], checkpoint_dir = [],
     len_dataset = 64\<rparr>"
  by (simp add: example_ctx_def setup_ctx_def example_env_def create_logger_def
      loguru_logger_def)

lemma format_step_10: "format_0d 7 10 = ''0000010''"
  by code_simp

lemmas step_defs = train_step_def begin_step_def count_step_def optimize_def live_after_def
  opt_after_def log_block_def metrics_report_def checkpoint_block_def checkpoint_path_def
  make_checkpoint_def emit_def logger_info_def
  update_ema_def update_ema_tracked_def OrderedDict_def add_inplace_def mul_inplace_def
  GradScaler_def GradScaler_scale_def GradScaler_step_def GradScaler_update_def
  all_reduce_SUM_def local_avg_def default_decay_def
  example_args_ckpt10_def example_args_def example_state_def example_batch_def

lemma example_step_rank1:
  "train_step (example_ctx 1) example_args (example_state 9) (example_batch (Num 2)) =
     Inr \<lparr>train_steps = 10, log_steps = 0, running_loss = 0, start_time = 6, item = 2,
          scaler = \<lparr>sc_enabled = True, sc_scale = 65536, sc_growth_tracker = 1\<rparr>,
          model_params = [(''w'', [3, 4])],
          ema_params = [(''w'', [3 / 10000, 4 / 10000])],
          opt = (),
          trace = [VaeEncode, ZeroGrad, Forward False, Backward 131072, ScalerStep True,
                   ScalerUpdate, EmaUpdate (9999 / 10000), CudaSynchronize, AllReduce 2,
                   LogWrite Stderr (Metrics 50 ''0000010'' 3 2)]\<rparr>"
  by (simp add: example_ctx_1 step_defs format_step_10 Let_def)

lemma example_step_rank0:
  "train_step (example_ctx 0) example_args_ckpt10 (example_state 9) (example_batch (Num 2)) =
     Inr \<lparr>train_steps = 10, log_steps = 0, running_loss = 0, start_time = 6, item = 2,
          scaler = \<lparr>sc_enabled = True, sc_scale = 65536, sc_growth_tracker = 1\<rparr>,
          model_params = [(''w'', [3, 4])],
          ema_params = [(''w'', [3 / 10000, 4 / 10000])],
          opt = (),
          trace = [VaeEncode, ZeroGrad, Forward False, Backward 131072, ScalerStep True,
                   ScalerUpdate, EmaUpdate (9999 / 10000), CudaSynchronize, AllReduce 2,
                   LogWrite Stderr (Metrics 50 ''0000010'' 3 2),
                   LogWrite (File ''results_ct/000-vision_encoder/log_0.txt'')
                     (Metrics 50 ''0000010'' 3 2),
                   Save ''results_ct/000-vision_encoder/checkpoints/0000010.pt''
                     [(''model'', StateDict [(''w'', [3, 4])]),
                      (''ema'', StateDict [(''w'', [3 / 10000, 4 / 10000])]),
                      (''opt'', OptState ()),
                      (''args'', Args example_args_ckpt10)],
                   LogWrite Stderr
                     (SavedCheckpoint ''results_ct/000-vision_encoder/checkpoints/0000010.pt''),
                   LogWrite (File ''results_ct/000-vision_encoder/log_0.txt'')
                     (SavedCheckpoint ''results_ct/000-vision_encoder/checkpoints/0000010.pt''),
                   Barrier]\<rparr>"
  by (simp add: example_ctx_0 step_defs format_step_10 Let_def)

text \<open>
  Claim C5, as the code has it. A step that raises nothing writes a checkpoint exactly when
  it is not skipped, the process has rank 0, and the step brings the global step counter to
  a positive multiple of \<open>ckpt_every\<close>; the counter counts the non-skipped steps. The file is
  the checkpoint directory, a slash, the counter padded with zeros to seven digits, and the
  suffix \<open>.pt\<close>; the value written has the keys model, ema, opt, args, in this order. On rank
  0 the checkpoint directory is \<open>results_dir/NNN-vision_encoder/checkpoints\<close>, with the
  experiment index padded to three digits.
\<close>

theorem checkpoint_cadence:
  assumes "step_ok ctx a st b"
  shows "(\<exists>st' es. train_step ctx a st b = Inr st' \<and> trace st' = trace st @ es
            \<and> train_steps st' = (if isnan (loss b) then train_steps st else train_steps st + 1)
            \<and> saved_paths es =
                (if \<not> isnan (loss b) \<and> rank ctx = 0 \<and> train_steps st' mod ckpt_every a = 0
                    \<and> 0 < train_steps st'
                 then [checkpoint_dir ctx @ ''/'' @ format_0d 7 (train_steps st') @ ''.pt'']
                 else [])
            \<and> (\<forall>p c. Save p c \<in> set es \<longrightarrow>
                  c = make_checkpoint a st'
                  \<and> map fst c = [''model'', ''ema'', ''opt'', ''args'']))
         \<and> (env_rank env = 0 \<longrightarrow>
               checkpoint_dir (setup_ctx env a)
                 = results_dir a @ ''/'' @ format_0d 3 (int (experiment_index env))
                     @ ''-vision_encoder/checkpoints'')"
proof -
  from train_step_saves [OF assms] obtain st' es where
    r: "train_step ctx a st b = Inr st'" "trace st' = trace st @ es"
       "train_steps st' = (if isnan (loss b) then train_steps st else train_steps st + 1)"
       "saved_paths es =
               (if \<not> isnan (loss b) \<and> rank ctx = 0 \<and> train_steps st' mod ckpt_every a = 0
                   \<and> 0 < train_steps st'
                then [checkpoint_path ctx (train_steps st')] else [])"
       "\<forall>p c. Save p c \<in> set es \<longrightarrow> c = make_checkpoint a st'"
    by (elim exE conjE)
  have k: "map fst (make_checkpoint a st') = [''model'', ''ema'', ''opt'', ''args'']"
    by (simp add: make_checkpoint_def)
  have p: "saved_paths es =
                (if \<not> isnan (loss b) \<and> rank ctx = 0 \<and> train_steps st' mod ckpt_every a = 0
                    \<and> 0 < train_steps st'
                 then [checkpoint_dir ctx @ ''/'' @ format_0d 7 (train_steps st') @ ''.pt'']
                 else [])"
    using r(4) by (simp only: checkpoint_path_def)
  have c: "\<forall>p c. Save p c \<in> set es \<longrightarrow>
                  c = make_checkpoint a st'
                  \<and> map fst c = [''model'', ''ema'', ''opt'', ''args'']"
  proof (intro allI impI)
    fix p c
    assume "Save p c \<in> set es"
    from r(5) [rule_format, OF this] have e: "c = make_checkpoint a st'" .
    from e k show "c = make_checkpoint a st'
                  \<and> map fst c = [''model'', ''ema'', ''opt'', ''args'']"
      by simp
  qed
  have 1: "\<exists>st' es. train_step ctx a st b = Inr st' \<and> trace st' = trace st @ es
            \<and> train_steps st' = (if isnan (loss b) then train_steps st else train_steps st + 1)
            \<and> saved_paths es =
                (if \<not> isnan (loss b) \<and> rank ctx = 0 \<and> train_steps st' mod ckpt_every a = 0
                    \<and> 0 < train_steps st'
                 then [checkpoint_dir ctx @ ''/'' @ format_0d 7 (train_steps st') @ ''.pt'']
                 else [])
            \<and> (\<forall>p c. Save p c \<in> set es \<longrightarrow>
                  c = make_checkpoint a st'
                  \<and> map fst c = [''model'', ''ema'', ''opt'', ''args''])"
    apply (rule exI [of _ st'])
    apply (rule exI [of _ es])
    apply (intro conjI)
        apply (rule r(1))
       apply (rule r(2))
      apply (rule r(3))
     apply (rule p)
    apply (rule c)
    done
  have 2: "env_rank env = 0 \<longrightarrow>
               checkpoint_dir (setup_ctx env a)
                 = results_dir a @ ''/'' @ format_0d 3 (int (experiment_index env))
                     @ ''-vision_encoder/checkpoints''"
    by (simp add: setup_ctx_def experiment_dir_def)
  from 1 2 show ?thesis by (rule conjI)
qed

text \<open>Step ten on rank 0 with a checkpoint every ten steps.\<close>

theorem checkpoint_cadence_witness:
  "step_ok (example_ctx 0) example_args_ckpt10 (example_state 9) (example_batch (Num 2))
   \<and> (\<exists>st' es. train_step (example_ctx 0) example_args_ckpt10 (example_state 9)
                  (example_batch (Num 2)) = Inr st'
         \<and> trace st' = trace (example_state 9) @ es
         \<and> train_steps st' = 10
         \<and> saved_paths es = [''results_ct/000-vision_encoder/checkpoints/0000010.pt''])
   \<and> env_rank (example_env 0) = 0
   \<and> checkpoint_dir (setup_ctx (example_env 0) example_args_ckpt10)
       = ''results_ct/000-vision_encoder/checkpoints''"
proof -
  have ok: "step_ok (example_ctx 0) example_args_ckpt10 (example_state 9) (example_batch (Num 2))"
    by (simp add: step_ok_def covers_def live_after_def OrderedDict_def GradScaler_step_def
        GradScaler_def example_args_ckpt10_def example_args_def example_state_def
        example_batch_def example_ctx_0)
  have r0: "env_rank (example_env 0) = 0" by (simp add: example_env_def)
  have f3: "format_0d 3 (int (experiment_index (example_env 0))) = ''000''"
    unfolding example_env_def by code_simp
  from checkpoint_cadence [OF ok, of "example_env 0"] ok r0 show ?thesis
    by (auto simp: example_ctx_0 example_args_ckpt10_def example_args_def example_state_def
        example_batch_def format_step_10 f3)
qed

text \<open>
  The file written at step ten is \<open>.../checkpoints/0000010.pt\<close>; nothing is written at
  \<open>.../checkpoints/0000010\<close>.
\<close>

theorem checkpoint_path_suffix_counterexample:
  "saved_paths (effects_of (train_step (example_ctx 0) example_args_ckpt10 (example_state 9)
                              (example_batch (Num 2))))
     = [''results_ct/000-vision_encoder/checkpoints/0000010.pt'']
   \<and> ''results_ct/000-vision_encoder/checkpoints/0000010''
       \<notin> set (saved_paths (effects_of (train_step (example_ctx 0) example_args_ckpt10
                                          (example_state 9) (example_batch (Num 2)))))"
  by (simp add: example_step_rank0 effects_of_def)

subsection \<open>The gradient scaler and the autocast flag\<close>

text \<open>
  Claim C6, as the code has it. \<open>main\<close> constructs the scaler with its defaults whatever
  the options say, so it is enabled, with scale 65536, also when \<open>autocast\<close> is off. With
  the flag off and an enabled scaler, a non-skipped step that raises nothing runs the forward
  pass with autocast disabled, passes the loss multiplied by the scaler's current scale to
  backward, lets the scaler run the optimizer step exactly when the gradients are finite (the
  live parameters stay as they were otherwise), and leaves the scaler enabled.
\<close>

theorem scaler_enabled_without_autocast:
  assumes "\<not> autocast a" and "\<not> isnan (loss b)" and "step_ok ctx a st b"
    and "sc_enabled (scaler st)"
  shows "scaler (initial_state env a ctx0 ema0) = GradScaler
         \<and> sc_enabled GradScaler \<and> sc_scale GradScaler = 65536
         \<and> (\<exists>st' es. train_step ctx a st b = Inr st' \<and> trace st' = trace st @ es
               \<and> Forward False \<in> set es
               \<and> Backward (item_of (loss b) * sc_scale (scaler st)) \<in> set es
               \<and> ScalerStep (\<not> found_inf b) \<in> set es
               \<and> model_params st' = (if found_inf b then model_params st else stepped_params b)
               \<and> sc_enabled (scaler st'))"
proof -
  from train_step_returns [OF assms(3)] obtain st' where r: "train_step ctx a st b = Inr st'"
    by blast
  note f = train_step_Inr [OF assms(2) r]
  let ?pre = "[VaeEncode, ZeroGrad, Forward (autocast a)]
              @ (if rank ctx = 0 \<and> wandb a then [WandbLog (loss b)] else [])
              @ [Backward (GradScaler_scale (scaler st) (item_of (loss b))),
                 ScalerStep (GradScaler_step (scaler st) (found_inf b)),
                 ScalerUpdate, EmaUpdate default_decay]"
  from f(5) obtain es1 es2 where t: "trace st' = trace st @ ?pre @ es1 @ es2"
    by (elim exE conjE) simp
  have 1: "Forward False \<in> set (?pre @ es1 @ es2)"
    using assms(1) by simp
  have 2: "Backward (item_of (loss b) * sc_scale (scaler st)) \<in> set (?pre @ es1 @ es2)"
    using assms(4) by (simp add: GradScaler_scale_def)
  have 3: "ScalerStep (\<not> found_inf b) \<in> set (?pre @ es1 @ es2)"
    using assms(4) by (simp add: GradScaler_step_def)
  have 4: "model_params st' = (if found_inf b then model_params st else stepped_params b)"
    using f(2) assms(4) by (simp add: live_after_def GradScaler_step_def)
  have 5: "sc_enabled (scaler st')"
    using f(4) assms(4) by (simp add: GradScaler_update_def)
  have step: "\<exists>st' es. train_step ctx a st b = Inr st' \<and> trace st' = trace st @ es
               \<and> Forward False \<in> set es
               \<and> Backward (item_of (loss b) * sc_scale (scaler st)) \<in> set es
               \<and> ScalerStep (\<not> found_inf b) \<in> set es
               \<and> model_params st' = (if found_inf b then model_params st else stepped_params b)
               \<and> sc_enabled (scaler st')"
    apply (rule exI [of _ st'])
    apply (rule exI [of _ "?pre @ es1 @ es2"])
    apply (intro conjI)
          apply (rule r)
         apply (rule t)
        apply (rule 1)
       apply (rule 2)
      apply (rule 3)
     apply (rule 4)
    apply (rule 5)
    done
  have init: "scaler (initial_state env a ctx0 ema0) = GradScaler"
    by (simp add: initial_state_def)
  have dflt: "sc_enabled GradScaler" "sc_scale GradScaler = 65536"
    by (simp_all add: GradScaler_def)
  from init dflt step show ?thesis by (intro conjI)
qed

text \<open>The sample step on rank 1, with the flag off and the scaler as \<open>main\<close> creates it.\<close>

theorem scaler_enabled_without_autocast_witness:
  "\<not> autocast example_args \<and> \<not> isnan (loss (example_batch (Num 2)))
   \<and> step_ok (example_ctx 1) example_args (example_state 9) (example_batch (Num 2))
   \<and> sc_enabled (scaler (example_state 9))
   \<and> scaler (initial_state (example_env 1) example_args (example_ctx 1) []) = GradScaler
   \<and> (\<exists>st' es. train_step (example_ctx 1) example_args (example_state 9)
                  (example_batch (Num 2)) = Inr st'
         \<and> trace st' = trace (example_state 9) @ es
         \<and> Forward False \<in> set es \<and> Backward (2 * 65536) \<in> set es
         \<and> ScalerStep True \<in> set es)"
proof -
  have h: "\<not> autocast example_args" "\<not> isnan (loss (example_batch (Num 2)))"
      "step_ok (example_ctx 1) example_args (example_state 9) (example_batch (Num 2))"
      "sc_enabled (scaler (example_state 9))"
    by (simp_all add: step_ok_def covers_def live_after_def OrderedDict_def GradScaler_step_def
        GradScaler_def example_args_def example_state_def example_batch_def example_ctx_1)
  from scaler_enabled_without_autocast [OF h, of "example_env 1" "example_ctx 1" "[]"] h
  show ?thesis
    by (auto simp: example_state_def example_batch_def GradScaler_def)
qed

text \<open>
  With the flag off, backward receives 131072 for the loss 2: the scaler is not a
  pass-through.
\<close>

theorem scaler_not_passthrough_counterexample:
  "\<not> autocast example_args
   \<and> scaler (example_state 9) = scaler (initial_state (example_env 1) example_args (example_ctx 1) [])
   \<and> loss (example_batch (Num 2)) = Num 2
   \<and> Backward 131072 \<in> set (effects_of (train_step (example_ctx 1) example_args
                                           (example_state 9) (example_batch (Num 2))))
   \<and> Backward 2 \<notin> set (effects_of (train_step (example_ctx 1) example_args
                                      (example_state 9) (example_batch (Num 2))))"
proof -
  have "\<not> autocast example_args"
    by (simp add: example_args_def)
  moreover have "scaler (example_state 9)
      = scaler (initial_state (example_env 1) example_args (example_ctx 1) [])"
    by (simp add: example_state_def initial_state_def)
  moreover have "loss (example_batch (Num 2)) = Num 2"
    by (simp add: example_batch_def)
  moreover have "Backward 131072 \<in> set (effects_of (train_step (example_ctx 1) example_args
                                           (example_state 9) (example_batch (Num 2))))"
    by (simp only: example_step_rank1 effects_of_def) simp
  moreover have "Backward 2 \<notin> set (effects_of (train_step (example_ctx 1) example_args
                                      (example_state 9) (example_batch (Num 2))))"
    by (simp only: example_step_rank1 effects_of_def) simp
  ultimately show ?thesis by (intro conjI)
qed

subsection \<open>Who writes the metrics line\<close>

text \<open>
  Claim C7 asks that a process of rank other than 0 takes part in the all-reduce and emits
  no log line. On rank 1 the sample step does take part in the all-reduce, and it also
  writes the metrics line, to standard error: \<open>logger.info\<close> on line 148 is not guarded by
  the rank, and \<open>create_logger\<close> returns loguru's logger with its standard-error handler on
  every rank.
\<close>

theorem metrics_line_on_rank_1:
  "rank (example_ctx 1) = 1
   \<and> logger (example_ctx 1) = [Stderr]
   \<and> AllReduce 2 \<in> set (effects_of (train_step (example_ctx 1) example_args
                                       (example_state 9) (example_batch (Num 2))))
   \<and> LogWrite Stderr (Metrics 50 ''0000010'' 3 2)
       \<in> set (effects_of (train_step (example_ctx 1) example_args
                            (example_state 9) (example_batch (Num 2))))"
proof -
  have "rank (example_ctx 1) = 1" "logger (example_ctx 1) = [Stderr]"
    by (simp_all add: example_ctx_1)
  moreover have "AllReduce 2 \<in> set (effects_of (train_step (example_ctx 1) example_args
                                       (example_state 9) (example_batch (Num 2))))"
    by (simp only: example_step_rank1 effects_of_def) simp
  moreover have "LogWrite Stderr (Metrics 50 ''0000010'' 3 2)
       \<in> set (effects_of (train_step (example_ctx 1) example_args
                            (example_state 9) (example_batch (Num 2))))"
    by (simp only: example_step_rank1 effects_of_def) simp
  ultimately show ?thesis by (intro conjI)
qed

subsection \<open>The metrics report\<close>

lemma all_reduce_SUM_peers:
  assumes "i < length vs"
  shows "all_reduce_SUM (vs ! i) (peers_of i vs) = sum_list vs"
proof -
  have "vs = take i vs @ vs ! i # drop (Suc i) vs"
    using assms by (rule id_take_nth_drop)
  then have "sum_list vs = sum_list (take i vs) + (vs ! i + sum_list (drop (Suc i) vs))"
    by (metis sum_list.Cons sum_list.append)
  then show ?thesis
    by (simp add: all_reduce_SUM_def peers_of_def)
qed

text \<open>
  Claim C4. Let the processes of a group be in the states \<open>sts\<close> (rank \<open>i\<close> in state
  \<open>sts ! i\<close>) when they report, the world size be the number of processes, and none of the
  divisions of the report be by zero on rank \<open>i\<close>. Then the report of rank \<open>i\<close> completes;
  it puts its local mean \<open>running_loss / log_steps\<close> into the all-reduce; the loss it
  reports is the sum of all local means divided by the world size; and afterwards its window
  loss sum and step count are zero and its window timer is the new clock reading.
\<close>

theorem metrics_report_global_mean:
  assumes "i < length sts"
    and "world_size ctx = length sts"
    and "peer_avgs b = peers_of i (map local_avg sts)"
    and "end_time b \<noteq> start_time (sts ! i)"
    and "len_dataset ctx \<noteq> 0"
    and "log_steps (sts ! i) \<noteq> 0"
  shows "\<exists>st' pct sps.
           metrics_report ctx a b (sts ! i) = Inr st'
           \<and> trace st' = trace (sts ! i)
                @ [CudaSynchronize,
                   AllReduce (running_loss (sts ! i) / real_of_int (log_steps (sts ! i)))]
                @ logger_info ctx
                    (Metrics pct (format_0d 7 (train_steps (sts ! i)))
                       (sum_list (map local_avg sts) / real (length sts)) sps)
           \<and> running_loss st' = 0 \<and> log_steps st' = 0 \<and> start_time st' = reset_time b"
proof -
  have w: "world_size ctx \<noteq> 0" using assms(1,2) by auto
  have "all_reduce_SUM (map local_avg sts ! i) (peers_of i (map local_avg sts))
          = sum_list (map local_avg sts)"
    using assms(1) by (intro all_reduce_SUM_peers) simp
  then have red: "all_reduce_SUM (local_avg (sts ! i)) (peer_avgs b) = sum_list (map local_avg sts)"
    using assms(1,3) by simp
  let ?sps = "real_of_int (log_steps (sts ! i)) / (end_time b - start_time (sts ! i))"
  let ?pct = "real_of_int (global_batch_size a div int (world_size ctx) * item (sts ! i))
                / real (len_dataset ctx) * 100"
  let ?st' = "(emit ([CudaSynchronize, AllReduce (local_avg (sts ! i))]
                       @ logger_info ctx
                           (Metrics ?pct (format_0d 7 (train_steps (sts ! i)))
                              (sum_list (map local_avg sts) / real (length sts)) ?sps)) (sts ! i))
                 \<lparr>running_loss := 0, log_steps := 0, start_time := reset_time b\<rparr>"
  have r: "metrics_report ctx a b (sts ! i) = Inr ?st'"
    using assms(4,5,6) w red assms(2) by (simp add: metrics_report_def Let_def)
  have t: "trace ?st' = trace (sts ! i)
                @ [CudaSynchronize,
                   AllReduce (running_loss (sts ! i) / real_of_int (log_steps (sts ! i)))]
                @ logger_info ctx
                    (Metrics ?pct (format_0d 7 (train_steps (sts ! i)))
                       (sum_list (map local_avg sts) / real (length sts)) ?sps)"
    by (simp add: emit_def local_avg_def)
  have z: "running_loss ?st' = 0" "log_steps ?st' = 0" "start_time ?st' = reset_time b"
    by simp_all
  show ?thesis
    apply (rule exI [of _ ?st'])
    apply (rule exI [of _ ?pct])
    apply (rule exI [of _ ?sps])
    apply (intro conjI)
        apply (rule r)
       apply (rule t)
      apply (rule z(1))
     apply (rule z(2))
    apply (rule z(3))
    done
qed

text \<open>
  Four processes with the local means 1, 2, 3 and 4: rank 0 reports the loss 2.5.
\<close>

theorem metrics_report_global_mean_witness:
  "(0::nat) < length (map (\<lambda>l. (example_state 10)\<lparr>running_loss := 9 * l\<rparr>) [1, 2, 3, 4])
   \<and> (\<exists>st' pct sps.
         metrics_report ((example_ctx 0)\<lparr>world_size := 4\<rparr>) example_args
           ((example_batch (Num 2))\<lparr>peer_avgs := [2, 3, 4]\<rparr>)
           ((example_state 10)\<lparr>running_loss := 9\<rparr>) = Inr st'
         \<and> trace st' = [CudaSynchronize, AllReduce 1]
              @ logger_info ((example_ctx 0)\<lparr>world_size := 4\<rparr>)
                  (Metrics pct ''0000010'' (5 / 2) sps)
         \<and> running_loss st' = 0 \<and> log_steps st' = 0 \<and> start_time st' = 6)"
proof -
  let ?sts = "map (\<lambda>l. (example_state 10)\<lparr>running_loss := 9 * l\<rparr>) [1, 2, 3, 4]"
  let ?ctx = "(example_ctx 0)\<lparr>world_size := 4\<rparr>"
  let ?b = "(example_batch (Num 2))\<lparr>peer_avgs := [2, 3, 4]\<rparr>"
  have h: "(0::nat) < length ?sts" "world_size ?ctx = length ?sts"
      "peer_avgs ?b = peers_of 0 (map local_avg ?sts)"
      "end_time ?b \<noteq> start_time (?sts ! 0)" "len_dataset ?ctx \<noteq> 0" "log_steps (?sts ! 0) \<noteq> 0"
    by (simp_all add: peers_of_def local_avg_def example_state_def example_batch_def
        example_ctx_0)
  have s: "sum_list (map local_avg ?sts) / real (length ?sts) = 5 / 2"
    by (simp add: local_avg_def example_state_def)
  have e: "?sts ! 0 = (example_state 10)\<lparr>running_loss := 9\<rparr>" by simp
  from metrics_report_global_mean [OF h, of example_args] h(1) show ?thesis
    unfolding s e
    by (simp add: example_state_def example_batch_def format_step_10)
qed

subsection \<open>The entry point never reaches the loop\<close>

lemma getattr_ct_image_folder_train:
  "getattr (namespace a) ''ct_image_folder_train'' = Inl (AttributeError ''ct_image_folder_train'')"
  by (simp add: getattr_def namespace_def)

lemma dataset_folders_raises:
  "dataset_folders a = Inl (AttributeError ''ct_image_folder_train'')"
  by (simp add: dataset_folders_def getattr_ct_image_folder_train)

text \<open>
  Claim C9, as the code has it. Whatever the parsed options and the surroundings, the set-up
  of \<open>main\<close> ends in an error, so \<open>main\<close> never reaches the loop over the epochs; and
  when a GPU is available, the image size is divisible by 8 and no library call before line
  89 raises, the error is the AttributeError for \<open>ct_image_folder_train\<close>, the first of the
  three attributes line 89 reads that the parser does not define.
\<close>

theorem main_never_reaches_loop:
  "(\<exists>err. main_setup env a = Inl err \<and> main env a = Inl err)
   \<and> (cuda_available env \<and> setup_failure env = None \<and> image_size a mod 8 = 0
        \<and> build_failure env = None
      \<longrightarrow> main env a = Inl (AttributeError ''ct_image_folder_train''))
   \<and> map_of (namespace a) ''ct_image_folder_train'' = None
   \<and> map_of (namespace a) ''mask_image_folder_train'' = None
   \<and> map_of (namespace a) ''mir_image_folder_train'' = None"
proof -
  have s: "\<exists>err. main_setup env a = Inl err"
    by (simp add: main_setup_def dataset_folders_raises split: option.splits)
  then obtain err where e: "main_setup env a = Inl err" ..
  then have 1: "\<exists>err. main_setup env a = Inl err \<and> main env a = Inl err"
    by (simp add: main_def)
  have 2: "cuda_available env \<and> setup_failure env = None \<and> image_size a mod 8 = 0
        \<and> build_failure env = None
      \<longrightarrow> main env a = Inl (AttributeError ''ct_image_folder_train'')"
    by (simp add: main_def main_setup_def dataset_folders_raises)
  have 3: "map_of (namespace a) ''ct_image_folder_train'' = None"
      "map_of (namespace a) ''mask_image_folder_train'' = None"
      "map_of (namespace a) ''mir_image_folder_train'' = None"
    by (simp_all add: namespace_def)
  from 1 2 3 show ?thesis by (intro conjI)
qed

text \<open>The parser's defaults where the set-up succeeds up to line 89.\<close>

theorem main_never_reaches_loop_witness:
  "cuda_available (example_env 0) \<and> setup_failure (example_env 0) = None
   \<and> image_size example_args mod 8 = 0 \<and> build_failure (example_env 0) = None
   \<and> main (example_env 0) example_args = Inl (AttributeError ''ct_image_folder_train'')"
proof -
  have h: "cuda_available (example_env 0) \<and> setup_failure (example_env 0) = None
      \<and> image_size example_args mod 8 = 0 \<and> build_failure (example_env 0) = None"
    by (simp add: example_env_def example_args_def)
  from main_never_reaches_loop [of "example_env 0" example_args] h show ?thesis
    by blast
qed

text \<open>
  Without a GPU the invocation with the parser's defaults ends in the AssertionError of
  line 52, not in an attribute-lookup error.
\<close>

theorem main_without_gpu_counterexample:
  "main ((example_env 0)\<lparr>cuda_available := False\<rparr>) example_args
     = Inl (AssertionError ''Training currently requires at least one GPU.'')
   \<and> main ((example_env 0)\<lparr>cuda_available := False\<rparr>) example_args
     \<noteq> Inl (AttributeError ''ct_image_folder_train'')"
  by (simp add: main_def main_setup_def)

subsection \<open>The loss engine\<close>

lemma map2_upt:
  "map2 f xs [0..<length xs] = map (\<lambda>i. f (xs ! i) i) [0..<length xs]"
proof (rule nth_equalityI)
  show "length (map2 f xs [0..<length xs]) = length (map (\<lambda>i. f (xs ! i) i) [0..<length xs])"
    by simp
next
  fix i
  assume "i < length (map2 f xs [0..<length xs])"
  then have "i < length xs" by simp
  then show "map2 f xs [0..<length xs] ! i = map (\<lambda>i. f (xs ! i) i) [0..<length xs] ! i"
    by simp
qed

lemma map_by_index: "map f xs = map (\<lambda>j. f (xs ! j)) [0..<length xs]"
  by (rule nth_equalityI) simp_all

lemma sum_list_exp_pos:
  fixes xs :: "real list"
  assumes "xs \<noteq> []"
  shows "0 < sum_list (map exp xs)"
  using assms
proof (induction xs)
  case Nil
  then show ?case by simp
next
  case (Cons x xs)
  have "0 \<le> sum_list (map exp xs)"
    by (rule sum_list_nonneg) auto
  moreover have "0 < exp x" by simp
  ultimately have "0 < exp x + sum_list (map exp xs)" by linarith
  then show ?case by simp
qed

text \<open>
  The cross-entropy of a matrix of pairwise values \<open>g (rows ! i) (rows ! j)\<close> against the
  identity labels.
\<close>

lemma cross_entropy_pairwise:
  fixes g :: "real list \<Rightarrow> real list \<Rightarrow> real"
  shows "cross_entropy (map (\<lambda>u. map (\<lambda>v. g u v) rows) rows) (arange (length rows)) =
           Inr (if rows = [] then NaN
                else Num ((\<Sum>i \<leftarrow> [0..<length rows].
                             - ln (exp (g (rows ! i) (rows ! i))
                                   / (\<Sum>j \<leftarrow> [0..<length rows]. exp (g (rows ! i) (rows ! j)))))
                          / real (length rows)))"
proof (cases "rows = []")
  case True
  then show ?thesis by (simp add: cross_entropy_def arange_def)
next
  case False
  let ?n = "length rows"
  let ?M = "map (\<lambda>u. map (\<lambda>v. g u v) rows) rows"
  let ?S = "\<lambda>i. \<Sum>j \<leftarrow> [0..<?n]. exp (g (rows ! i) (rows ! j))"
  have len: "length ?M = ?n" by simp
  have no_oob: "\<not> list_ex (\<lambda>(row, y). length row \<le> y) (zip ?M [0..<?n])"
    by (auto simp: list_ex_iff set_zip)
  have row_sum: "sum_list (map exp (?M ! i)) = ?S i" if "i < ?n" for i
  proof -
    have "map exp (?M ! i) = map (\<lambda>v. exp (g (rows ! i) v)) rows"
      using that by simp
    also have "\<dots> = map (\<lambda>j. exp (g (rows ! i) (rows ! j))) [0..<?n]"
      by (rule map_by_index)
    finally show ?thesis by simp
  qed
  have S_pos: "0 < ?S i" if "i < ?n" for i
  proof -
    have "?M ! i \<noteq> []" using that False by simp
    from sum_list_exp_pos [OF this] row_sum [OF that] show ?thesis by simp
  qed
  have entry: "- (log_softmax (?M ! i) ! i)
                 = - ln (exp (g (rows ! i) (rows ! i)) / ?S i)" if "i < ?n" for i
  proof -
    have "log_softmax (?M ! i) ! i = g (rows ! i) (rows ! i) - ln (sum_list (map exp (?M ! i)))"
      using that by (simp add: log_softmax_def)
    also have "\<dots> = g (rows ! i) (rows ! i) - ln (?S i)"
      using row_sum [OF that] by simp
    also have "\<dots> = ln (exp (g (rows ! i) (rows ! i)) / ?S i)"
      using S_pos [OF that] by (simp add: ln_divide_pos)
    finally show ?thesis by simp
  qed
  have "map2 (\<lambda>row y. - (log_softmax row ! y)) ?M [0..<?n]
          = map (\<lambda>i. - (log_softmax (?M ! i) ! i)) [0..<?n]"
    using map2_upt [of "\<lambda>row y. - (log_softmax row ! y)" ?M] by (simp only: len)
  also have "\<dots> = map (\<lambda>i. - ln (exp (g (rows ! i) (rows ! i)) / ?S i)) [0..<?n]"
    using entry by simp
  finally have body: "map2 (\<lambda>row y. - (log_softmax row ! y)) ?M [0..<?n]
          = map (\<lambda>i. - ln (exp (g (rows ! i) (rows ! i)) / ?S i)) [0..<?n]" .
  have "cross_entropy ?M (arange ?n)
          = Inr (Num (sum_list (map2 (\<lambda>row y. - (log_softmax row ! y)) ?M [0..<?n])
                      / real (length ?M)))"
    using False no_oob unfolding cross_entropy_def arange_def by simp
  with body False show ?thesis by (simp only: len) simp
qed

lemma normalize_reshape:
  "normalize (reshape x) = map (\<lambda>s. clamped_l2_normalize (concat s)) x"
  by (simp add: normalize_def reshape_def clamped_l2_normalize_def normalize_eps_def)

lemma infoNCE_loss_b_pairwise:
  "infoNCE_loss_b x t =
     Inr (let rows = map (\<lambda>s. clamped_l2_normalize (concat s)) x in
          if rows = [] then NaN
          else Num ((\<Sum>i \<leftarrow> [0..<length rows].
                       - ln (exp (dot (rows ! i) (rows ! i) / t)
                             / (\<Sum>j \<leftarrow> [0..<length rows]. exp (dot (rows ! i) (rows ! j) / t))))
                    / real (length rows)))"
proof -
  let ?rows = "map (\<lambda>s. clamped_l2_normalize (concat s)) x"
  have "infoNCE_loss_b x t
          = cross_entropy (map (\<lambda>u. map (\<lambda>v. dot u v / t) ?rows) ?rows) (arange (length ?rows))"
    unfolding infoNCE_loss_b_def Let_def normalize_reshape div_scalar_def matmul_T_def
    by (simp add: o_def)
  also note cross_entropy_pairwise [of "\<lambda>u v. dot u v / t" ?rows]
  finally show ?thesis by (simp only: Let_def)
qed

lemma infoNCE_loss_b_clamped:
  "infoNCE_loss_b x (7 / 100) = Inr (clamped_contrastive_loss x)"
  unfolding infoNCE_loss_b_pairwise clamped_contrastive_loss_def spec_entropy_of_rows_def
    spec_row_entropy_def spec_similarity_def Let_def
  by simp

text \<open>
  Claim C3, as the code has it. For every embedding tensor the loss engine returns the
  categorical cross-entropy, against the identity labels, of the matrix of pairwise dot
  products divided by 0.07, of the flattened rows normalised as \<open>F.normalize\<close> does: each
  row divided by the larger of its Euclidean norm and \<open>1e-12\<close>. (With no rows the mean is
  NaN on both sides.)
\<close>

theorem infoNCE_loss_b_is_clamped_contrastive_loss:
  "infoNCE_loss_b x default_tau = Inr (clamped_contrastive_loss x)"
  by (simp only: default_tau_def infoNCE_loss_b_clamped)

text \<open>Two rows \<open>[p]\<close> and \<open>[- p]\<close>: the loss in closed form, and that it determines \<open>p * p\<close>.\<close>

lemma pair_entropy:
  "spec_entropy_of_rows [[p], [- p]]
     = Num (- ln (exp (p * p / (7 / 100))
                  / (exp (p * p / (7 / 100)) + exp (- (p * p / (7 / 100))))))"
proof -
  have u: "[0..<length [[p], [- p]]] = [0, 1]"
    by (simp add: upt_rec)
  show ?thesis
    unfolding spec_entropy_of_rows_def spec_row_entropy_def spec_similarity_def u
    by (simp add: dot_def add.commute)
qed

lemma pair_entropy_inj:
  fixes a b :: real
  assumes "- ln (exp a / (exp a + exp (- a))) = - ln (exp b / (exp b + exp (- b)))"
  shows "a = b"
proof -
  have pa: "0 < exp a / (exp a + exp (- a))" and pb: "0 < exp b / (exp b + exp (- b))"
    by (simp_all add: add_pos_pos)
  from assms have "ln (exp a / (exp a + exp (- a))) = ln (exp b / (exp b + exp (- b)))"
    by simp
  with pa pb have "exp a / (exp a + exp (- a)) = exp b / (exp b + exp (- b))"
    by simp
  moreover have "exp a + exp (- a) \<noteq> 0" "exp b + exp (- b) \<noteq> 0"
    using add_pos_pos [of "exp a" "exp (- a)"] add_pos_pos [of "exp b" "exp (- b)"] by simp_all
  ultimately have "exp a * (exp b + exp (- b)) = exp b * (exp a + exp (- a))"
    by (simp add: frac_eq_eq)
  then have "exp a * exp (- b) = exp b * exp (- a)"
    by (simp add: algebra_simps)
  then have "exp (a - b) = exp (b - a)"
    by (simp add: exp_add [symmetric])
  then have "a - b = b - a" by simp
  then show ?thesis by simp
qed

lemma norm2_single: "norm2 [v] = \<bar>v\<bar>"
  by (simp add: norm2_def)

text \<open>
  Two samples with the single entries \<open>1e-13\<close> and \<open>- 1e-13\<close>. Dividing each row by its norm
  gives \<open>1\<close> and \<open>- 1\<close>; \<open>F.normalize\<close> divides by \<open>1e-12\<close> and gives \<open>0.1\<close> and \<open>- 0.1\<close>.
\<close>

lemma tiny_pair_clamped:
  "clamped_contrastive_loss [[[1 / 10 ^ 13]], [[- (1 / 10 ^ 13)]]]
     = spec_entropy_of_rows [[1 / 10], [- (1 / 10)]]"
  by (simp add: clamped_contrastive_loss_def clamped_l2_normalize_def norm2_single)

lemma tiny_pair_exact:
  "spec_contrastive_loss [[[1 / 10 ^ 13]], [[- (1 / 10 ^ 13)]]]
     = spec_entropy_of_rows [[1], [- 1]]"
  by (simp add: spec_contrastive_loss_def spec_l2_normalize_def norm2_single)

lemma entropy_tenth_neq_one:
  "spec_entropy_of_rows [[1 / 10], [- (1 / 10)]] \<noteq> spec_entropy_of_rows [[1], [- 1]]"
proof
  assume "spec_entropy_of_rows [[1 / 10], [- (1 / 10)]] = spec_entropy_of_rows [[1], [- 1]]"
  then have "- ln (exp ((1 / 10) * (1 / 10) / (7 / 100))
                  / (exp ((1 / 10) * (1 / 10) / (7 / 100))
                     + exp (- ((1 / 10) * (1 / 10) / (7 / 100)))))
             = - ln (exp (1 * 1 / (7 / 100))
                  / (exp (1 * 1 / (7 / 100)) + exp (- (1 * 1 / (7 / 100 :: real)))))"
    unfolding pair_entropy [of "1 / 10"] pair_entropy [of 1] by (simp only: lossval.inject)
  then have "(1 / 10) * (1 / 10) / (7 / 100) = 1 * 1 / (7 / 100 :: real)"
    by (rule pair_entropy_inj)
  then show False by simp
qed

text \<open>
  On these two samples the loss engine does not return the cross-entropy of the exactly
  L2-normalised rows.
\<close>

theorem exact_l2_normalisation_counterexample:
  "infoNCE_loss_b [[[1 / 10 ^ 13]], [[- (1 / 10 ^ 13)]]] default_tau
     \<noteq> Inr (spec_contrastive_loss [[[1 / 10 ^ 13]], [[- (1 / 10 ^ 13)]]])"
proof -
  have "infoNCE_loss_b [[[1 / 10 ^ 13]], [[- (1 / 10 ^ 13)]]] default_tau
          = Inr (spec_entropy_of_rows [[1 / 10], [- (1 / 10)]])"
    by (simp only: default_tau_def infoNCE_loss_b_clamped tiny_pair_clamped)
  moreover have "spec_contrastive_loss [[[1 / 10 ^ 13]], [[- (1 / 10 ^ 13)]]]
          = spec_entropy_of_rows [[1], [- 1]]"
    by (rule tiny_pair_exact)
  ultimately show ?thesis
    using entropy_tenth_neq_one by (simp only: sum.inject) simp
qed

text \<open>Scaling a row by a positive factor scales its norm by the same factor.\<close>

lemma norm2_scale:
  assumes "0 < c"
  shows "norm2 (map (\<lambda>v. c * v) r) = c * norm2 r"
proof -
  have "sum_list (map (\<lambda>x. x * x) (map (\<lambda>v. c * v) r))
          = (c * c) * sum_list (map (\<lambda>x. x * x) r)"
    by (induction r) (simp_all add: algebra_simps)
  then have "norm2 (map (\<lambda>v. c * v) r) = sqrt (c * c) * sqrt (sum_list (map (\<lambda>x. x * x) r))"
    by (simp only: norm2_def real_sqrt_mult)
  with assms show ?thesis
    by (simp add: norm2_def)
qed

lemma reshape_scale_tensor:
  "reshape (scale_tensor c x) = map (\<lambda>s. map (\<lambda>v. c * v) (concat s)) x"
  by (simp add: reshape_def scale_tensor_def map_concat)

lemma normalize_scaled_row:
  assumes "0 < c" and "normalize_eps \<le> norm2 r" and "normalize_eps \<le> c * norm2 r"
  shows "map (\<lambda>v. v / max (norm2 (map (\<lambda>v. c * v) r)) normalize_eps) (map (\<lambda>v. c * v) r)
           = map (\<lambda>v. v / max (norm2 r) normalize_eps) r"
proof -
  have m1: "max (norm2 (map (\<lambda>v. c * v) r)) normalize_eps = c * norm2 r"
    using assms(1,3) by (simp add: norm2_scale max_def)
  have m2: "max (norm2 r) normalize_eps = norm2 r"
    using assms(2) by (simp add: max_def)
  have "(c * v) / (c * norm2 r) = v / norm2 r" for v
    using assms(1) by simp
  then show ?thesis
    unfolding m1 m2 by (simp add: o_def)
qed

lemma normalize_scale_tensor:
  assumes "0 < c"
    and "list_all (\<lambda>s. normalize_eps \<le> norm2 (concat s)
                        \<and> normalize_eps \<le> c * norm2 (concat s)) x"
  shows "normalize (reshape (scale_tensor c x)) = normalize (reshape x)"
proof -
  have "map (\<lambda>v. v / max (norm2 (map (\<lambda>v. c * v) (concat s))) normalize_eps)
            (map (\<lambda>v. c * v) (concat s))
          = map (\<lambda>v. v / max (norm2 (concat s)) normalize_eps) (concat s)"
    if "s \<in> set x" for s
    using assms that by (intro normalize_scaled_row) (simp_all add: list_all_iff)
  then show ?thesis
    unfolding reshape_scale_tensor by (simp add: normalize_def reshape_def o_def)
qed

text \<open>
  Claim C10, as the code has it. For every embedding tensor whose flattened rows all have a
  Euclidean norm of at least \<open>1e-12\<close>, and every positive scalar \<open>c\<close> for which the rows
  scaled by \<open>c\<close> still have a norm of at least \<open>1e-12\<close>, the loss engine returns on the
  tensor scaled by \<open>c\<close> what it returns on the tensor, at every temperature.
\<close>

theorem loss_scale_invariant:
  assumes "0 < c"
    and "list_all (\<lambda>s. normalize_eps \<le> norm2 (concat s)
                        \<and> normalize_eps \<le> c * norm2 (concat s)) x"
  shows "infoNCE_loss_b (scale_tensor c x) t = infoNCE_loss_b x t"
  unfolding infoNCE_loss_b_def Let_def normalize_scale_tensor [OF assms] ..

text \<open>Two samples with the entries 1 and \<open>- 2\<close>, scaled by 2.\<close>

theorem loss_scale_invariant_witness:
  "(0::real) < 2
   \<and> list_all (\<lambda>s. normalize_eps \<le> norm2 (concat s) \<and> normalize_eps \<le> 2 * norm2 (concat s))
        [[[1]], [[- 2]]]
   \<and> infoNCE_loss_b [[[2]], [[- 4]]] default_tau = infoNCE_loss_b [[[1]], [[- 2]]] default_tau"
proof -
  have h: "(0::real) < 2"
      "list_all (\<lambda>s. normalize_eps \<le> norm2 (concat s) \<and> normalize_eps \<le> 2 * norm2 (concat s))
        [[[1]], [[- 2]]]"
    by (simp_all add: norm2_single normalize_eps_def)
  have s: "scale_tensor 2 [[[1]], [[- 2]]] = [[[2]], [[- 4]]]"
    by (simp add: scale_tensor_def)
  from loss_scale_invariant [OF h, of default_tau] h show ?thesis
    unfolding s by simp
qed

text \<open>
  The rows \<open>[1e-13]\<close> and \<open>[- 1e-13]\<close> are not zero and 10 is positive, and the loss of the
  tensor scaled by 10 differs from the loss of the tensor.
\<close>

theorem tiny_rows_not_scale_invariant_counterexample:
  "(0::real) < 10
   \<and> norm2 (concat [[1 / 10 ^ 13]]) \<noteq> 0 \<and> norm2 (concat [[- (1 / 10 ^ 13)]]) \<noteq> 0
   \<and> infoNCE_loss_b (scale_tensor 10 [[[1 / 10 ^ 13]], [[- (1 / 10 ^ 13)]]]) default_tau
       \<noteq> infoNCE_loss_b [[[1 / 10 ^ 13]], [[- (1 / 10 ^ 13)]]] default_tau"
proof -
  have "infoNCE_loss_b [[[1 / 10 ^ 13]], [[- (1 / 10 ^ 13)]]] default_tau
          = Inr (spec_entropy_of_rows [[1 / 10], [- (1 / 10)]])"
    by (simp only: default_tau_def infoNCE_loss_b_clamped tiny_pair_clamped)
  moreover have "clamped_contrastive_loss (scale_tensor 10 [[[1 / 10 ^ 13]], [[- (1 / 10 ^ 13)]]])
          = spec_entropy_of_rows [[1], [- 1]]"
    by (simp add: scale_tensor_def clamped_contrastive_loss_def clamped_l2_normalize_def
        norm2_single)
  then have "infoNCE_loss_b (scale_tensor 10 [[[1 / 10 ^ 13]], [[- (1 / 10 ^ 13)]]]) default_tau
          = Inr (spec_entropy_of_rows [[1], [- 1]])"
    by (simp only: default_tau_def infoNCE_loss_b_clamped)
  ultimately have "infoNCE_loss_b (scale_tensor 10 [[[1 / 10 ^ 13]], [[- (1 / 10 ^ 13)]]]) default_tau
       \<noteq> infoNCE_loss_b [[[1 / 10 ^ 13]], [[- (1 / 10 ^ 13)]]] default_tau"
    using entropy_tenth_neq_one by (simp only: sum.inject) simp
  then show ?thesis by (simp add: norm2_single)
qed

end
